theory Spec2Isabelle
  imports Main "HOL-Library.Word"
begin

section \<open>Data model of the page with projects, tasks and trash\<close>

text \<open>
  The types of the page component that owns projects, tasks and the trash
  (\<^verbatim>\<open>ProjectManager\<close>, second document of \<^verbatim>\<open>src/unnamed/part_000\<close>).
  A TypeScript union of string literals is a datatype, an interface is a record,
  \<^verbatim>\<open>T | null\<close> and an optional field are an option. The field \<^verbatim>\<open>id\<close> is
  called \<open>ident\<close>; the fields of a project carry the prefix \<open>p_\<close> and those of the
  new-task form the prefix \<open>n_\<close>, since record fields share one name space.

  A JavaScript string is a sequence of 16-bit code units. The strings the code trims,
  the title of a task and the name of a project, are kept as such sequences; the other
  strings are only copied and compared, and are kept as byte strings.
\<close>

type_synonym code_unit = "16 word"

type_synonym jsstring = "code_unit list"

text \<open>The code units of a text of ASCII characters.\<close>

definition utf16 :: "string \<Rightarrow> jsstring" where
  "utf16 s = map of_char s"

datatype Priority = Low | Medium | High | Urgent

datatype TaskStatus = Backlog | Todo | In_progress | Review | Done

datatype ProjectStatus = Live | Building | Planned | Offline

datatype Agent = Jarvis | Bob | Justin | Kyle | Ethan | Shen

record Task =
  ident :: string
  title :: jsstring
  description :: string
  status :: TaskStatus
  priority :: Priority
  assignee :: "Agent option"
  dueDate :: "string option"
  tags :: "string list"
  createdAt :: string
  projectId :: "string option"

text \<open>\<^verbatim>\<open>interface DeletedTask extends Task { deletedAt: string }\<close>\<close>

record DeletedTask = Task +
  deletedAt :: string

text \<open>
  \<^verbatim>\<open>Omit<Project, 'id' | 'createdAt'>\<close> is the type of the new-project form; a
  \<^verbatim>\<open>Project\<close> is that plus the two omitted fields.
\<close>

record ProjectInput =
  p_name :: jsstring
  p_description :: string
  p_url :: string
  p_status :: ProjectStatus
  p_category :: string
  p_techStack :: string
  p_owner :: Agent
  p_designScore :: int

record Project = ProjectInput +
  p_ident :: string
  p_createdAt :: string

text \<open>The state of the new-task form; \<open>None\<close> is the empty choice \<^verbatim>\<open>''\<close> of the assignee.\<close>

record NewTask =
  n_title :: jsstring
  n_description :: string
  n_priority :: Priority
  n_assignee :: "Agent option"
  n_status :: TaskStatus
  n_dueDate :: string
  n_projectId :: string

datatype SyncStatus = Idle | Syncing | Saved | Error

definition MAX_DELETED :: nat where
  "MAX_DELETED = 20"

subsection \<open>JavaScript helpers\<close>

text \<open>
  \<^verbatim>\<open>String.prototype.trim\<close> removes white space and line terminators from both
  ends: the code points TAB, LF, VT, FF, CR, SP, NBSP, U+1680, U+2000 to U+200A, LS, PS,
  U+202F, U+205F, U+3000 and the byte order mark U+FEFF. Each of them is one code unit,
  and no half of a surrogate pair is among them.
\<close>

definition is_space :: "code_unit \<Rightarrow> bool" where
  "is_space c =
     (c \<in> set [0x0009, 0x000A, 0x000B, 0x000C, 0x000D, 0x0020, 0x00A0, 0x1680,
                0x2000, 0x2001, 0x2002, 0x2003, 0x2004, 0x2005, 0x2006, 0x2007, 0x2008,
                0x2009, 0x200A, 0x2028, 0x2029, 0x202F, 0x205F, 0x3000, 0xFEFF])"

definition trim :: "jsstring \<Rightarrow> jsstring" where
  "trim s = rev (dropWhile is_space (rev (dropWhile is_space s)))"

text \<open>\<^verbatim>\<open>s || null\<close> and \<^verbatim>\<open>s || undefined\<close> on a string: the empty string is falsy.\<close>

definition or_null :: "string \<Rightarrow> string option" where
  "or_null s = (if s = [] then None else Some s)"

text \<open>
  \<^verbatim>\<open>a || b\<close> where \<open>a\<close> is an array or \<^verbatim>\<open>undefined\<close>: every array is truthy, the
  empty one too.
\<close>

definition or_else :: "'a list option \<Rightarrow> 'a list \<Rightarrow> 'a list" where
  "or_else a b = (case a of None \<Rightarrow> b | Some xs \<Rightarrow> xs)"

text \<open>\<^verbatim>\<open>Date.now().toString()\<close>: a number of milliseconds in decimal.\<close>

definition digit :: "nat \<Rightarrow> char" where
  "digit d = ''0123456789'' ! d"

fun toString :: "nat \<Rightarrow> string" where
  "toString n = (if n < 10 then [digit n] else toString (n div 10) @ [digit (n mod 10)])"

declare toString.simps [simp del]

text \<open>\<^verbatim>\<open>s.split('T')[0]\<close>: the text before the first \<^verbatim>\<open>T\<close>.\<close>

definition split_T_0 :: "string \<Rightarrow> string" where
  "split_T_0 s = takeWhile (\<lambda>c. c \<noteq> CHR ''T'') s"

text \<open>
  A reading of the wall clock: what \<^verbatim>\<open>Date.now()\<close> and
  \<^verbatim>\<open>new Date().toISOString()\<close> return at that moment.
\<close>

record Clock =
  now :: nat
  toISOString :: string

subsection \<open>The device store\<close>

text \<open>
  \<^verbatim>\<open>localStorage\<close> under the three keys the page uses. A slot is \<open>None\<close> when
  \<^verbatim>\<open>getItem\<close> gives \<^verbatim>\<open>null\<close> or the empty string, or text that
  \<^verbatim>\<open>JSON.parse\<close> rejects, and \<open>Some v\<close> when the stored text decodes to \<open>v\<close>.

  Whether \<^verbatim>\<open>setItem\<close> throws depends on the size of the text written and on what
  the store holds already, so a store can take one write and reject the next. Texts have
  no size here; instead the store comes with its answers: \<open>writes\<close> counts the calls of
  \<^verbatim>\<open>setItem\<close> so far, and \<open>quota_exceeded n\<close> says that the call after \<open>n\<close>
  earlier ones throws. Every run of the page on a real store is the run on one such
  store. The whole store is \<open>None\<close> where \<^verbatim>\<open>typeof window === 'undefined'\<close>.
\<close>

record Device =
  pm_projects :: "Project list option"
  pm_tasks :: "Task list option"
  pm_deleted_tasks :: "DeletedTask list option"
  writes :: nat
  quota_exceeded :: "nat \<Rightarrow> bool"

datatype StorageError = QuotaExceededError

text \<open>
  A key is the slot it names: \<^verbatim>\<open>loadLocal\<close> takes the selector of the slot,
  \<^verbatim>\<open>saveLocal\<close> its update function.
\<close>

definition loadLocal :: "Device option \<Rightarrow> (Device \<Rightarrow> 'a option) \<Rightarrow> 'a \<Rightarrow> 'a" where
  "loadLocal window key defaults =
     (case window of
        None \<Rightarrow> defaults
      | Some localStorage \<Rightarrow>
          (case key localStorage of None \<Rightarrow> defaults | Some v \<Rightarrow> v))"

text \<open>
  A call returns the store after it, with the error it threw, if any: a rejected write
  leaves the slots as they were. \<^verbatim>\<open>saveLocal\<close> has no \<^verbatim>\<open>try\<close>, so what
  \<^verbatim>\<open>setItem\<close> throws leaves \<^verbatim>\<open>saveLocal\<close> too.
\<close>

definition setItem ::
  "Device \<Rightarrow> (('a option \<Rightarrow> 'a option) \<Rightarrow> Device \<Rightarrow> Device) \<Rightarrow> 'a
     \<Rightarrow> StorageError option \<times> Device" where
  "setItem localStorage key v =
     (let n = writes localStorage;
          localStorage' = localStorage\<lparr>writes := n + 1\<rparr>
      in if quota_exceeded localStorage n then (Some QuotaExceededError, localStorage')
         else (None, key (\<lambda>_. Some v) localStorage'))"

definition saveLocal ::
  "Device option \<Rightarrow> (('a option \<Rightarrow> 'a option) \<Rightarrow> Device \<Rightarrow> Device) \<Rightarrow> 'a
     \<Rightarrow> StorageError option \<times> Device option" where
  "saveLocal window key data =
     (case window of
        None \<Rightarrow> (None, None)
      | Some localStorage \<Rightarrow>
          (case setItem localStorage key data of
             (e, localStorage') \<Rightarrow> (e, Some localStorage')))"

section \<open>The remote document store\<close>

text \<open>
  The route \<^verbatim>\<open>src/app/api/data/route.ts\<close> over the table \<^verbatim>\<open>kv_store\<close>. The value
  of the row is JSON of any origin, read here through the fields a document can have;
  a field the JSON lacks is \<open>None\<close>.
\<close>

record KvValue =
  v_tasks :: "Task list option"
  v_projects :: "Project list option"
  v_deletedTasks :: "DeletedTask list option"
  v_lastUpdated :: "string option"

text \<open>
  The row under \<^verbatim>\<open>DATA_KEY\<close>: none, one whose value is a string that
  \<^verbatim>\<open>JSON.parse\<close> rejects, or one that holds a value.
\<close>

datatype KvRow = NoRow | Unparsable | Row KvValue

text \<open>
  How the store answers: normally, with an \<^verbatim>\<open>error\<close> object (its message), or by
  throwing (its text).
\<close>

datatype Db = DbOk | DbError string | DbThrows string

record Server =
  supabase :: bool
  db :: Db
  kv_store :: KvRow
  server_time :: string

datatype Source = Src_supabase | Src_empty | Src_no_db | Src_error

text \<open>What \<^verbatim>\<open>GET\<close> sends. The object it builds has no key \<^verbatim>\<open>deletedTasks\<close>.\<close>

record GetResponse =
  g_tasks :: "Task list"
  g_projects :: "Project list"
  g_deletedTasks :: "DeletedTask list option"
  g_lastUpdated :: "string option"
  g_source :: Source

definition no_data :: "Source \<Rightarrow> GetResponse" where
  "no_data src =
     \<lparr>g_tasks = [], g_projects = [], g_deletedTasks = None, g_lastUpdated = None,
      g_source = src\<rparr>"

definition GET :: "Server \<Rightarrow> GetResponse" where
  "GET srv =
     (if \<not> supabase srv then no_data Src_no_db
      else case db srv of
        DbThrows _ \<Rightarrow> no_data Src_error
      | DbError _ \<Rightarrow> no_data Src_empty
      | DbOk \<Rightarrow>
          (case kv_store srv of
             NoRow \<Rightarrow> no_data Src_empty
           | Unparsable \<Rightarrow> no_data Src_error
           | Row parsed \<Rightarrow>
               \<lparr>g_tasks = or_else (v_tasks parsed) [],
                g_projects = or_else (v_projects parsed) [],
                g_deletedTasks = None,
                g_lastUpdated = v_lastUpdated parsed,
                g_source = Src_supabase\<rparr>))"

text \<open>The body of a \<^verbatim>\<open>POST\<close>, a JSON object that may lack any of its fields.\<close>

record PostBody =
  b_tasks :: "Task list option"
  b_projects :: "Project list option"
  b_deletedTasks :: "DeletedTask list option"

record PostResponse =
  r_status :: nat
  r_success :: bool
  r_lastUpdated :: "string option"
  r_error :: "string option"
  r_source :: Source

text \<open>
  \<^verbatim>\<open>POST\<close> returns its response and the store after it. \<open>None\<close> as the body is a
  request whose body \<^verbatim>\<open>request.json()\<close> rejects (its text is not modelled).
\<close>

definition POST :: "Server \<Rightarrow> PostBody option \<Rightarrow> PostResponse \<times> Server" where
  "POST srv request =
     (case request of
        None \<Rightarrow>
          (\<lparr>r_status = 500, r_success = False, r_lastUpdated = None, r_error = Some [],
            r_source = Src_error\<rparr>, srv)
      | Some body \<Rightarrow>
          (let lastUpdated = server_time srv in
           if \<not> supabase srv then
             (\<lparr>r_status = 500, r_success = False, r_lastUpdated = None,
               r_error = Some ''Database not configured'', r_source = Src_no_db\<rparr>, srv)
           else case db srv of
             DbThrows text \<Rightarrow>
               (\<lparr>r_status = 500, r_success = False, r_lastUpdated = None,
                 r_error = Some text, r_source = Src_error\<rparr>, srv)
           | DbError message \<Rightarrow>
               (\<lparr>r_status = 500, r_success = False, r_lastUpdated = None,
                 r_error = Some message, r_source = Src_error\<rparr>, srv)
           | DbOk \<Rightarrow>
               (\<lparr>r_status = 200, r_success = True, r_lastUpdated = Some lastUpdated,
                 r_error = None, r_source = Src_supabase\<rparr>,
                srv\<lparr>kv_store :=
                  Row \<lparr>v_tasks = Some (or_else (b_tasks body) []),
                       v_projects = Some (or_else (b_projects body) []),
                       v_deletedTasks = None,
                       v_lastUpdated = Some lastUpdated\<rparr>\<rparr>)))"

subsection \<open>The client's requests\<close>

text \<open>
  What \<^verbatim>\<open>fetch\<close> gives the page: a rejected promise (the network is down), or a
  response with its \<^verbatim>\<open>ok\<close> flag and its JSON.
\<close>

datatype 'a Fetched = Rejected | Response bool 'a

record Remote =
  online :: bool
  server :: Server

definition fetch_GET :: "Remote \<Rightarrow> GetResponse Fetched" where
  "fetch_GET r = (if \<not> online r then Rejected else Response True (GET (server r)))"

definition fetch_POST :: "Remote \<Rightarrow> PostBody \<Rightarrow> PostResponse Fetched \<times> Remote" where
  "fetch_POST r body =
     (if \<not> online r then (Rejected, r)
      else case POST (server r) (Some body) of
        (res, srv) \<Rightarrow> (Response (r_status res = 200) res, r\<lparr>server := srv\<rparr>))"

text \<open>
  What \<^verbatim>\<open>loadFromApi\<close> returns when it does not return \<^verbatim>\<open>null\<close>. The JSON of
  the answer is read as the route writes it, with \<^verbatim>\<open>tasks\<close> and \<^verbatim>\<open>projects\<close>
  always arrays; an answer that is not JSON is not modelled (it gives \<^verbatim>\<open>null\<close>, as
  a rejected \<^verbatim>\<open>fetch\<close> does).
\<close>

record ApiData =
  a_tasks :: "Task list"
  a_projects :: "Project list"
  a_deletedTasks :: "DeletedTask list"

definition loadFromApi :: "GetResponse Fetched \<Rightarrow> ApiData option" where
  "loadFromApi fetched =
     (case fetched of
        Rejected \<Rightarrow> None
      | Response ok data \<Rightarrow>
          if \<not> ok then None
          else if g_source data = Src_supabase
                  \<and> (length (g_tasks data) > 0 \<or> length (g_projects data) > 0)
          then Some \<lparr>a_tasks = g_tasks data, a_projects = g_projects data,
                     a_deletedTasks = or_else (g_deletedTasks data) []\<rparr>
          else None)"

section \<open>The page: state, persistence and handlers\<close>

subsection \<open>Default data\<close>

definition DEFAULT_PROJECTS :: "Project list" where
  "DEFAULT_PROJECTS =
    [\<lparr>p_name = utf16 ''Gem Dashboard Elite'', p_description = ''Main project tracker & crypto signals leaderboard'',
      p_url = ''https://gem-dashboard-elite.vercel.app'',
      p_status = Live, p_category = ''Dashboard'', p_techStack = ''Next.js 14, Supabase, Tailwind 3'',
      p_owner = Jarvis, p_designScore = 7, p_ident = ''1'', p_createdAt = ''2026-01-15''\<rparr>,
     \<lparr>p_name = utf16 ''Project Manager'', p_description = ''Task & project management for the AI team'',
      p_url = ''https://project-manager-opal-one.vercel.app'',
      p_status = Live, p_category = ''Tool'', p_techStack = ''Next.js 16, Framer Motion, Tailwind 4'',
      p_owner = Jarvis, p_designScore = 8, p_ident = ''2'', p_createdAt = ''2026-02-01''\<rparr>,
     \<lparr>p_name = utf16 ''Command Center'', p_description = ''Cyberpunk system ops dashboard with live data'',
      p_url = ''https://command-center-eosin.vercel.app'',
      p_status = Live, p_category = ''Dashboard'', p_techStack = ''Next.js 14, SQLite, Supabase'',
      p_owner = Justin, p_designScore = 7, p_ident = ''3'', p_createdAt = ''2026-01-20''\<rparr>,
     \<lparr>p_name = utf16 ''Agent Status Dashboard'', p_description = ''Monitor all 16 agents, APIs, cron jobs'',
      p_url = ''https://agent-status-dashboard.vercel.app'',
      p_status = Live, p_category = ''Dashboard'', p_techStack = ''Static HTML, Chart.js'',
      p_owner = Justin, p_designScore = 8, p_ident = ''4'', p_createdAt = ''2026-01-18''\<rparr>,
     \<lparr>p_name = utf16 ''Crypto Tracker'', p_description = ''Live prices, calls, whale activity, liquidations'',
      p_url = ''https://crypto-tracker-theta-seven.vercel.app'',
      p_status = Live, p_category = ''Dashboard'', p_techStack = ''Next.js, Recharts, Tailwind 3'',
      p_owner = Jarvis, p_designScore = 7, p_ident = ''5'', p_createdAt = ''2026-01-10''\<rparr>,
     \<lparr>p_name = utf16 ''Kyle Dashboard'', p_description = ''Lead generation tracking with pipeline flow'',
      p_url = ''https://kyle-dashboard.vercel.app'',
      p_status = Live, p_category = ''Marketing'', p_techStack = ''Static HTML, Chart.js'',
      p_owner = Kyle, p_designScore = 8, p_ident = ''6'', p_createdAt = ''2026-01-22''\<rparr>,
     \<lparr>p_name = utf16 ''Algo Leaderboard'', p_description = ''Algo trading performance rankings'',
      p_url = ''https://algo-leaderboard.vercel.app'',
      p_status = Live, p_category = ''Dashboard'', p_techStack = ''Next.js 14, Recharts'',
      p_owner = Jarvis, p_designScore = 3, p_ident = ''7'', p_createdAt = ''2026-01-12''\<rparr>,
     \<lparr>p_name = utf16 ''Strategy Hub'', p_description = ''Internal content strategy docs'',
      p_url = ''https://strategy-hub-eosin.vercel.app'',
      p_status = Live, p_category = ''Marketing'', p_techStack = ''Next.js 14'',
      p_owner = Jarvis, p_designScore = 3, p_ident = ''8'', p_createdAt = ''2026-01-14''\<rparr>,
     \<lparr>p_name = utf16 ''Master Dashboard'', p_description = ''System overview with Vercel/n8n/cron monitoring'',
      p_url = ''https://master-dashboard-fawn.vercel.app'',
      p_status = Live, p_category = ''Dashboard'', p_techStack = ''Next.js 16, Pages Router'',
      p_owner = Bob, p_designScore = 4, p_ident = ''9'', p_createdAt = ''2026-01-08''\<rparr>,
     \<lparr>p_name = utf16 ''ROI Calculator'', p_description = ''Lead capture with ROI calculation'',
      p_url = ''https://roi-calculator-flax-eta.vercel.app'',
      p_status = Live, p_category = ''Tool'', p_techStack = ''Static HTML'',
      p_owner = Kyle, p_designScore = 6, p_ident = ''10'', p_createdAt = ''2026-01-25''\<rparr>,
     \<lparr>p_name = utf16 ''Jarvis Dashboard v2'', p_description = ''Empty - needs to be built or deleted'',
      p_url = '''',
      p_status = Planned, p_category = ''Dashboard'', p_techStack = ''Next.js 16, Tailwind 4'',
      p_owner = Bob, p_designScore = 0, p_ident = ''11'', p_createdAt = ''2026-02-01''\<rparr>,
     \<lparr>p_name = utf16 ''Project Tracker'', p_description = ''Kanban board for Call Setter AI'',
      p_url = ''https://project-tracker-sand.vercel.app'',
      p_status = Live, p_category = ''Tool'', p_techStack = ''Static HTML, Upstash Redis'',
      p_owner = Jarvis, p_designScore = 5, p_ident = ''12'', p_createdAt = ''2026-01-16''\<rparr>]"

definition DEFAULT_TASKS :: "Task list" where
  "DEFAULT_TASKS =
    [\<lparr>ident = ''1'', title = utf16 ''Fix Telegram API costs'',
      description = ''Reduce token usage by switching to Kimi K2.5'',
      status = In_progress, priority = Urgent, assignee = Some Jarvis, dueDate = Some ''2026-02-06'',
      tags = [''bug'', ''urgent''], createdAt = ''2026-02-05'', projectId = Some ''2''\<rparr>,
     \<lparr>ident = ''2'', title = utf16 ''Glass UI Dashboard upgrade'',
      description = ''Apply glassmorphism to all dashboards'',
      status = Todo, priority = High, assignee = Some Bob, dueDate = Some ''2026-02-07'',
      tags = [''design''], createdAt = ''2026-02-05'', projectId = None\<rparr>,
     \<lparr>ident = ''3'', title = utf16 ''Deploy monitoring agent'',
      description = ''Watch Vercel deployments and alert on failures'',
      status = Done, priority = Medium, assignee = Some Justin, dueDate = Some ''2026-02-05'',
      tags = [''devops''], createdAt = ''2026-02-04'', projectId = Some ''4''\<rparr>,
     \<lparr>ident = ''4'', title = utf16 ''Lead generation optimization'',
      description = ''Improve Kyle dashboard metrics'',
      status = Review, priority = Medium, assignee = Some Kyle, dueDate = Some ''2026-02-08'',
      tags = [''marketing''], createdAt = ''2026-02-03'', projectId = Some ''6''\<rparr>,
     \<lparr>ident = ''5'', title = utf16 ''Security audit completion'',
      description = ''Full system security review and API key cleanup'',
      status = Backlog, priority = High, assignee = Some Ethan, dueDate = Some ''2026-02-10'',
      tags = [''security''], createdAt = ''2026-02-02'', projectId = None\<rparr>,
     \<lparr>ident = ''6'', title = utf16 ''Cost tracking improvements'',
      description = ''Better API cost monitoring with Shen dashboard'',
      status = Todo, priority = Low, assignee = Some Shen, dueDate = Some ''2026-02-09'',
      tags = [''finance''], createdAt = ''2026-02-01'', projectId = None\<rparr>]"

subsection \<open>State\<close>

text \<open>
  The state the handlers read and write, and the page's surroundings. The first seven
  fields are the component's own (\<^verbatim>\<open>useState\<close> and \<^verbatim>\<open>useRef\<close>; the fields that
  only steer the view, such as which dialog is open, are left out). \<open>window\<close> is the
  device store. \<open>timers\<close> are the pending timeouts in the order they were set, each with
  its handle, the time it is due and the arguments its callback closes over; \<open>time\<close> is the
  time of the event loop in milliseconds. \<open>requests\<close> lists the bodies of the
  \<^verbatim>\<open>POST\<close>s the page has issued, oldest first.
\<close>

type_synonym Snapshot = "Task list \<times> Project list \<times> DeletedTask list option"

record App =
  projects :: "Project list"
  tasks :: "Task list"
  deletedTasks :: "DeletedTask list"
  newProject :: ProjectInput
  newTask :: NewTask
  syncStatus :: SyncStatus
  saveTimer :: "nat option"
  window :: "Device option"
  timers :: "(nat \<times> nat \<times> Snapshot) list"
  timer_count :: nat
  time :: nat
  remote :: Remote
  requests :: "PostBody list"

definition empty_newProject :: ProjectInput where
  "empty_newProject =
     \<lparr>p_name = [], p_description = [], p_url = [], p_status = Planned,
      p_category = ''Dashboard'', p_techStack = [], p_owner = Jarvis, p_designScore = 5\<rparr>"

definition empty_newTask :: NewTask where
  "empty_newTask =
     \<lparr>n_title = [], n_description = [], n_priority = Medium, n_assignee = None,
      n_status = Todo, n_dueDate = [], n_projectId = []\<rparr>"

text \<open>The page as first rendered, on a given device and network.\<close>

definition ProjectManager :: "Device option \<Rightarrow> Remote \<Rightarrow> App" where
  "ProjectManager w r =
     \<lparr>projects = DEFAULT_PROJECTS, tasks = DEFAULT_TASKS, deletedTasks = [],
      newProject = empty_newProject, newTask = empty_newTask, syncStatus = Idle,
      saveTimer = None, window = w, timers = [], timer_count = 0, time = 0,
      remote = r, requests = []\<rparr>"

text \<open>
  A handler returns normally in a state, \<open>(None, s)\<close>, or throws in the state it had
  reached, \<open>(Some e, s)\<close>: what it did before the throw stays done.
\<close>

type_synonym Outcome = "StorageError option \<times> App"

definition and_then :: "Outcome \<Rightarrow> (App \<Rightarrow> Outcome) \<Rightarrow> Outcome" where
  "and_then r f = (case r of (None, s) \<Rightarrow> f s | (Some e, s) \<Rightarrow> (Some e, s))"

text \<open>One call of \<^verbatim>\<open>saveLocal\<close> on the page's device store.\<close>

definition saveLocal_in ::
  "App \<Rightarrow> (('a option \<Rightarrow> 'a option) \<Rightarrow> Device \<Rightarrow> Device) \<Rightarrow> 'a \<Rightarrow> Outcome" where
  "saveLocal_in s key data =
     (case saveLocal (window s) key data of (e, w) \<Rightarrow> (e, s\<lparr>window := w\<rparr>))"

subsection \<open>Timers\<close>

definition setTimeout :: "App \<Rightarrow> Snapshot \<Rightarrow> nat \<Rightarrow> nat \<times> App" where
  "setTimeout s closure ms =
     (let h = timer_count s + 1
      in (h, s\<lparr>timers := timers s @ [(h, time s + ms, closure)], timer_count := h\<rparr>))"

definition clearTimeout :: "App \<Rightarrow> nat \<Rightarrow> App" where
  "clearTimeout s h = s\<lparr>timers := filter (\<lambda>(h', due, closure). h' \<noteq> h) (timers s)\<rparr>"

subsection \<open>Saving\<close>

text \<open>
  \<^verbatim>\<open>saveToApi\<close> awaits the \<^verbatim>\<open>fetch\<close> and returns nothing: a rejected promise is
  caught and logged, a response is not looked at.
\<close>

definition saveToApi :: "App \<Rightarrow> Task list \<Rightarrow> Project list \<Rightarrow> DeletedTask list option \<Rightarrow> App" where
  "saveToApi s t p deleted =
     (let body = \<lparr>b_tasks = Some t, b_projects = Some p, b_deletedTasks = deleted\<rparr>
      in case fetch_POST (remote s) body of
        (Rejected, r) \<Rightarrow> s\<lparr>remote := r, requests := requests s @ [body]\<rparr>
      | (Response ok res, r) \<Rightarrow> s\<lparr>remote := r, requests := requests s @ [body]\<rparr>)"

text \<open>The callback that \<^verbatim>\<open>debouncedSave\<close> hands to \<^verbatim>\<open>setTimeout\<close>.\<close>

definition saveTimer_callback :: "App \<Rightarrow> Snapshot \<Rightarrow> App" where
  "saveTimer_callback s closure =
     (case closure of (t, p, d) \<Rightarrow>
        (saveToApi (s\<lparr>syncStatus := Syncing\<rparr>) t p d)\<lparr>syncStatus := Saved\<rparr>)"

text \<open>
  Time passes: the timeouts that have become due run, in the order they were set (every
  timeout of the page has the same delay, so that is the order they are due).
\<close>

definition advance :: "App \<Rightarrow> nat \<Rightarrow> App" where
  "advance s ms =
     (let t' = time s + ms;
          due = filter (\<lambda>(h, at, closure). at \<le> t') (timers s);
          later = filter (\<lambda>(h, at, closure). \<not> at \<le> t') (timers s)
      in fold (\<lambda>(h, at, closure) s'. saveTimer_callback s' closure) due
           (s\<lparr>time := t', timers := later\<rparr>))"

definition debouncedSave ::
  "App \<Rightarrow> Task list \<Rightarrow> Project list \<Rightarrow> DeletedTask list option \<Rightarrow> Outcome" where
  "debouncedSave s t p d =
     and_then (saveLocal_in s pm_tasks_update t) (\<lambda>s.
     and_then (saveLocal_in s pm_projects_update p) (\<lambda>s.
     and_then (case d of None \<Rightarrow> (None, s) | Some d' \<Rightarrow> saveLocal_in s pm_deleted_tasks_update d') (\<lambda>s.
       (let s = (case saveTimer s of None \<Rightarrow> s | Some h \<Rightarrow> clearTimeout s h)
        in case setTimeout s (t, p, d) 800 of
          (h, s) \<Rightarrow> (None, s\<lparr>saveTimer := Some h\<rparr>)))))"

definition persistProjects :: "App \<Rightarrow> Project list \<Rightarrow> Outcome" where
  "persistProjects s p =
     debouncedSave (s\<lparr>projects := p\<rparr>) (tasks s) p (Some (deletedTasks s))"

definition persistTasks :: "App \<Rightarrow> Task list \<Rightarrow> DeletedTask list option \<Rightarrow> Outcome" where
  "persistTasks s t d =
     (let s' = s\<lparr>tasks := t\<rparr>;
          s' = (case d of None \<Rightarrow> s' | Some d' \<Rightarrow> s'\<lparr>deletedTasks := d'\<rparr>)
      in debouncedSave s' t (projects s) (Some (or_else d (deletedTasks s))))"

subsection \<open>Loading on mount\<close>

text \<open>
  The effect of the mount: \<^verbatim>\<open>load\<close> runs as one step, with no handler between its
  \<^verbatim>\<open>await\<close>s. The flag \<^verbatim>\<open>isInitialLoad\<close> is written and never read, and is left
  out.
\<close>

definition load :: "App \<Rightarrow> Outcome" where
  "load s =
     (let localP = loadLocal (window s) pm_projects DEFAULT_PROJECTS;
          localT = loadLocal (window s) pm_tasks DEFAULT_TASKS;
          localD = loadLocal (window s) pm_deleted_tasks [];
          s = s\<lparr>projects := localP, tasks := localT, deletedTasks := localD,
                syncStatus := Syncing\<rparr>
      in case loadFromApi (fetch_GET (remote s)) of
        Some apiData \<Rightarrow>
          (let s = s\<lparr>projects :=
                       (if length (a_projects apiData) > 0 then a_projects apiData else localP),
                     tasks := (if length (a_tasks apiData) > 0 then a_tasks apiData else localT),
                     deletedTasks := or_else (Some (a_deletedTasks apiData)) localD\<rparr>
           in and_then (saveLocal_in s pm_projects_update
                  (if length (a_projects apiData) > 0 then a_projects apiData else localP)) (\<lambda>s.
              and_then (saveLocal_in s pm_tasks_update
                  (if length (a_tasks apiData) > 0 then a_tasks apiData else localT)) (\<lambda>s.
              and_then (saveLocal_in s pm_deleted_tasks_update
                  (or_else (Some (a_deletedTasks apiData)) localD)) (\<lambda>s.
                (None, s\<lparr>syncStatus := Saved\<rparr>)))))
      | None \<Rightarrow> (None, (saveToApi s localT localP (Some localD))\<lparr>syncStatus := Saved\<rparr>))"

subsection \<open>Handlers of projects and tasks\<close>

definition addProject :: "App \<Rightarrow> Clock \<Rightarrow> Outcome" where
  "addProject s date =
     (if trim (p_name (newProject s)) = [] then (None, s)
      else
        (let project = ProjectInput.extend (newProject s)
               (Project.fields (toString (now date)) (split_T_0 (toISOString date)))
         in and_then (persistProjects s (project # projects s)) (\<lambda>s.
              (None, s\<lparr>newProject := empty_newProject\<rparr>))))"

definition deleteProject :: "App \<Rightarrow> string \<Rightarrow> Outcome" where
  "deleteProject s i = persistProjects s (filter (\<lambda>p. p_ident p \<noteq> i) (projects s))"

definition addTask :: "App \<Rightarrow> Clock \<Rightarrow> Outcome" where
  "addTask s date =
     (if trim (n_title (newTask s)) = [] then (None, s)
      else
        (let task =
               \<lparr>ident = toString (now date), title = n_title (newTask s),
                description = n_description (newTask s),
                status = n_status (newTask s), priority = n_priority (newTask s),
                assignee = n_assignee (newTask s),
                dueDate = or_null (n_dueDate (newTask s)), tags = [],
                createdAt = split_T_0 (toISOString date),
                projectId = or_null (n_projectId (newTask s))\<rparr>
         in and_then (persistTasks s (task # tasks s) None) (\<lambda>s.
              (None, s\<lparr>newTask := empty_newTask\<rparr>))))"

definition softDeleteTask :: "App \<Rightarrow> Clock \<Rightarrow> string \<Rightarrow> Outcome" where
  "softDeleteTask s date i =
     (case find (\<lambda>t. ident t = i) (tasks s) of
        None \<Rightarrow> (None, s)
      | Some task \<Rightarrow>
          (let deleted = Task.extend task (DeletedTask.fields (toISOString date));
               newDeleted = take MAX_DELETED (deleted # deletedTasks s);
               s' = s\<lparr>deletedTasks := newDeleted\<rparr>;
               newTasks = filter (\<lambda>t. ident t \<noteq> i) (tasks s)
           in persistTasks s' newTasks (Some newDeleted)))"

definition restoreTask :: "App \<Rightarrow> string \<Rightarrow> Outcome" where
  "restoreTask s i =
     (case find (\<lambda>t. ident t = i) (deletedTasks s) of
        None \<Rightarrow> (None, s)
      | Some task \<Rightarrow>
          (let restored = Task.truncate task;
               newDeleted = filter (\<lambda>t. ident t \<noteq> i) (deletedTasks s);
               s' = s\<lparr>deletedTasks := newDeleted\<rparr>
           in persistTasks s' (restored # tasks s) (Some newDeleted)))"

definition permanentDeleteTask :: "App \<Rightarrow> string \<Rightarrow> Outcome" where
  "permanentDeleteTask s i =
     (let newDeleted = filter (\<lambda>t. ident t \<noteq> i) (deletedTasks s);
          s' = s\<lparr>deletedTasks := newDeleted\<rparr>
      in and_then (saveLocal_in s' pm_deleted_tasks_update newDeleted) (\<lambda>s'.
           debouncedSave s' (tasks s) (projects s) (Some newDeleted)))"

text \<open>The button that empties the trash (its handler is written in place).\<close>

definition emptyTrash :: "App \<Rightarrow> Outcome" where
  "emptyTrash s =
     (let s' = s\<lparr>deletedTasks := []\<rparr>
      in and_then (saveLocal_in s' pm_deleted_tasks_update []) (\<lambda>s'.
           debouncedSave s' (tasks s) (projects s) (Some [])))"

definition updateTaskStatus :: "App \<Rightarrow> string \<Rightarrow> TaskStatus \<Rightarrow> Outcome" where
  "updateTaskStatus s taskId newStatus =
     persistTasks s
       (map (\<lambda>t. if ident t = taskId then t\<lparr>status := newStatus\<rparr> else t) (tasks s)) None"

section \<open>The page with completion dates\<close>

text \<open>
  The task of \<^verbatim>\<open>ProjectManagementPage\<close> (\<^verbatim>\<open>src/unnamed/part_001\<close>), which records
  when a task was updated and completed; its fields carry the prefix \<open>m_\<close>. The
  form of the task dialog is a \<^verbatim>\<open>Partial<Task>\<close>: a field it may lack is an option
  (status and priority are read through a cast and are always set by the dialog).
\<close>

record MTask =
  m_ident :: string
  m_title :: jsstring
  m_description :: string
  m_status :: TaskStatus
  m_priority :: Priority
  m_assignee :: "Agent option"
  m_dueDate :: "string option"
  m_tags :: "string list"
  m_createdAt :: string
  m_updatedAt :: string
  m_completedAt :: "string option"
  m_projectId :: "string option"

record TaskForm =
  f_title :: "jsstring option"
  f_description :: "string option"
  f_status :: TaskStatus
  f_priority :: Priority
  f_assignee :: "Agent option"
  f_dueDate :: "string option"
  f_tags :: "string list option"
  f_projectId :: "string option"

text \<open>Truthiness of a string that may be \<^verbatim>\<open>null\<close> or \<^verbatim>\<open>undefined\<close>.\<close>

definition truthy :: "string option \<Rightarrow> bool" where
  "truthy x = (case x of None \<Rightarrow> False | Some s \<Rightarrow> s \<noteq> [])"

text \<open>\<^verbatim>\<open>x || null\<close> on such a string.\<close>

definition opt_or_null :: "string option \<Rightarrow> string option" where
  "opt_or_null x = (if truthy x then x else None)"

text \<open>
  \<^verbatim>\<open>generateId\<close>; \<open>random\<close> is what
  \<^verbatim>\<open>Math.random().toString(36).substr(2, 9)\<close> gives.
\<close>

definition generateId :: "Clock \<Rightarrow> string \<Rightarrow> string" where
  "generateId date random = ''task-'' @ toString (now date) @ ''-'' @ random"

text \<open>
  \<^verbatim>\<open>handleSubmit\<close> of the task dialog: \<open>None\<close> when it returns without saving,
  else the task it hands to \<^verbatim>\<open>onSave\<close>. \<open>task\<close> is the task being edited, if any.
\<close>

definition handleSubmit :: "TaskForm \<Rightarrow> MTask option \<Rightarrow> Clock \<Rightarrow> string \<Rightarrow> MTask option" where
  "handleSubmit formData task date random =
     (if trim (case f_title formData of None \<Rightarrow> [] | Some t \<Rightarrow> t) = [] then None
      else
        (let now = toISOString date
         in Some
           \<lparr>m_ident =
              (if truthy (map_option m_ident task) then m_ident (the task)
               else generateId date random),
            m_title = the (f_title formData),
            m_description = (case f_description formData of None \<Rightarrow> [] | Some d \<Rightarrow> d),
            m_status = f_status formData,
            m_priority = f_priority formData,
            m_assignee = f_assignee formData,
            m_dueDate = opt_or_null (f_dueDate formData),
            m_tags = or_else (f_tags formData) [],
            m_createdAt =
              (if truthy (map_option m_createdAt task) then m_createdAt (the task) else now),
            m_updatedAt = now,
            m_completedAt =
              (if f_status formData = Done \<and> \<not> truthy (Option.bind task m_completedAt)
               then Some now
               else opt_or_null (Option.bind task m_completedAt)),
            m_projectId = opt_or_null (f_projectId formData)\<rparr>))"

text \<open>The dialog opens on a task with the task as its form (\<^verbatim>\<open>setFormData(task)\<close>).\<close>

definition form_of :: "MTask \<Rightarrow> TaskForm" where
  "form_of task =
     \<lparr>f_title = Some (m_title task), f_description = Some (m_description task),
      f_status = m_status task, f_priority = m_priority task, f_assignee = m_assignee task,
      f_dueDate = m_dueDate task, f_tags = Some (m_tags task),
      f_projectId = m_projectId task\<rparr>"

definition handleSaveTask :: "MTask list \<Rightarrow> MTask \<Rightarrow> MTask list" where
  "handleSaveTask prev task =
     (case find (\<lambda>t. m_ident t = m_ident task) prev of
        Some existing \<Rightarrow> map (\<lambda>t. if m_ident t = m_ident task then task else t) prev
      | None \<Rightarrow> task # prev)"

definition handleStatusChange :: "MTask list \<Rightarrow> Clock \<Rightarrow> string \<Rightarrow> TaskStatus \<Rightarrow> MTask list" where
  "handleStatusChange prev date i status' =
     map (\<lambda>t.
       if m_ident t \<noteq> i then t
       else t\<lparr>m_status := status',
              m_updatedAt := toISOString date,
              m_completedAt :=
                (if status' = Done \<and> \<not> truthy (m_completedAt t) then Some (toISOString date)
                 else if status' \<noteq> Done then None
                 else m_completedAt t)\<rparr>) prev"

text \<open>
  Saving the dialog that was opened on \<open>task\<close> after the user has chosen the status
  \<open>status'\<close> there: the edit-form path of a status change.
\<close>

definition edit_status :: "MTask list \<Rightarrow> MTask \<Rightarrow> Clock \<Rightarrow> string \<Rightarrow> TaskStatus \<Rightarrow> MTask list" where
  "edit_status prev task date random status' =
     (case handleSubmit ((form_of task)\<lparr>f_status := status'\<rparr>) (Some task) date random of
        None \<Rightarrow> prev
      | Some savedTask \<Rightarrow> handleSaveTask prev savedTask)"

section \<open>Sequences of operations\<close>


text \<open>
  Creating a task or a project: the user fills the form in and submits it at a clock
  reading.
\<close>

datatype Create = CreateTask NewTask Clock | CreateProject ProjectInput Clock

fun create :: "App \<Rightarrow> Create \<Rightarrow> App" where
  "create s (CreateTask input date) = snd (addTask (s\<lparr>newTask := input\<rparr>) date)"
| "create s (CreateProject input date) = snd (addProject (s\<lparr>newProject := input\<rparr>) date)"

definition creates :: "App \<Rightarrow> Create list \<Rightarrow> App" where
  "creates s ops = fold (\<lambda>op s. create s op) ops s"

text \<open>The clock readings at which a sequence creates tasks, and projects.\<close>

fun task_times :: "Create list \<Rightarrow> nat list" where
  "task_times [] = []"
| "task_times (CreateTask input date # ops) =
     (if trim (n_title input) = [] then task_times ops else now date # task_times ops)"
| "task_times (CreateProject input date # ops) = task_times ops"

fun project_times :: "Create list \<Rightarrow> nat list" where
  "project_times [] = []"
| "project_times (CreateTask input date # ops) = project_times ops"
| "project_times (CreateProject input date # ops) =
     (if trim (p_name input) = [] then project_times ops else now date # project_times ops)"

text \<open>
  A mutation as the persistence layer sees it: a call of \<^verbatim>\<open>persistTasks\<close> or of
  \<^verbatim>\<open>persistProjects\<close>, through which every handler of tasks and projects saves,
  or the purge of a trash entry or of the whole trash, which call
  \<^verbatim>\<open>debouncedSave\<close> themselves. A burst is a list of mutations, each with the time
  that passed since the event before it.
\<close>

datatype Mutation =
  PersistTasks "Task list" "DeletedTask list option"
| PersistProjects "Project list"
| PermanentDeleteTask string
| EmptyTrash

fun mutate :: "App \<Rightarrow> Mutation \<Rightarrow> Outcome" where
  "mutate s (PersistTasks t d) = persistTasks s t d"
| "mutate s (PersistProjects p) = persistProjects s p"
| "mutate s (PermanentDeleteTask i) = permanentDeleteTask s i"
| "mutate s EmptyTrash = emptyTrash s"

fun burst :: "App \<Rightarrow> (nat \<times> Mutation) list \<Rightarrow> App" where
  "burst s [] = s"
| "burst s ((gap, m) # rest) = burst (snd (mutate (advance s gap) m)) rest"

text \<open>The document the page holds, as the body of a \<^verbatim>\<open>POST\<close>.\<close>

definition snapshot :: "App \<Rightarrow> PostBody" where
  "snapshot s =
     \<lparr>b_tasks = Some (tasks s), b_projects = Some (projects s),
      b_deletedTasks = Some (deletedTasks s)\<rparr>"

text \<open>Every handler of the burst returns normally: none of its cache writes throws.\<close>

fun returns :: "App \<Rightarrow> (nat \<times> Mutation) list \<Rightarrow> bool" where
  "returns s [] = True"
| "returns s ((gap, m) # rest) =
     (fst (mutate (advance s gap) m) = None \<and> returns (snd (mutate (advance s gap) m)) rest)"

section \<open>Sample data\<close>

definition sample_task :: "nat \<Rightarrow> Task" where
  "sample_task n =
     \<lparr>ident = toString n, title = utf16 ''Fix bug'', description = [], status = Todo,
      priority = High, assignee = None, dueDate = None, tags = [],
      createdAt = ''2026-02-05'', projectId = None\<rparr>"

text \<open>
  Clock readings for the examples: the number is the argument, and the text is that of
  1770285600000 whatever the number, since the examples read from the text a date or a
  stamp that no statement compares with the number.
\<close>

definition sample_clock :: "nat \<Rightarrow> Clock" where
  "sample_clock n = \<lparr>now = n, toISOString = ''2026-02-05T10:00:00.000Z''\<rparr>"

definition sample_device :: Device where
  "sample_device =
     \<lparr>pm_projects = None, pm_tasks = None, pm_deleted_tasks = None, writes = 0,
      quota_exceeded = (\<lambda>n. False)\<rparr>"

definition sample_server :: Server where
  "sample_server =
     \<lparr>supabase = True, db = DbOk, kv_store = NoRow,
      server_time = ''2026-02-05T10:00:01.000Z''\<rparr>"

definition sample_remote :: Remote where
  "sample_remote = \<lparr>online = True, server = sample_server\<rparr>"

definition sample_app :: App where
  "sample_app =
     (ProjectManager (Some sample_device) sample_remote)\<lparr>tasks := map sample_task [0..<21]\<rparr>"


text \<open>A title of a space, a no-break space, an ideographic space and a byte order mark.\<close>

definition blank_form :: NewTask where
  "blank_form = empty_newTask\<lparr>n_title := [0x0020, 0x00A0, 0x3000, 0xFEFF]\<rparr>"

definition filled_form :: NewTask where
  "filled_form = empty_newTask\<lparr>n_title := utf16 ''Fix bug'', n_priority := High\<rparr>"

definition sample_project :: Project where
  "sample_project =
     \<lparr>p_name = utf16 ''Project Manager'', p_description = [], p_url = [], p_status = Live,
      p_category = ''Tool'', p_techStack = [], p_owner = Jarvis, p_designScore = 8,
      p_ident = ''2'', p_createdAt = ''2026-02-01''\<rparr>"

definition sample_deleted :: DeletedTask where
  "sample_deleted = Task.extend (sample_task 7) (DeletedTask.fields ''2026-02-05T09:00:00.000Z'')"

definition full_device :: Device where
  "full_device = sample_device\<lparr>quota_exceeded := (\<lambda>n. True)\<rparr>"

text \<open>A store with room for three more writes.\<close>

definition filling_device :: Device where
  "filling_device = sample_device\<lparr>quota_exceeded := (\<lambda>n. 3 \<le> n)\<rparr>"

definition cached_device :: Device where
  "cached_device =
     \<lparr>pm_projects = Some [], pm_tasks = Some [sample_task 1],
      pm_deleted_tasks = Some [sample_deleted], writes = 0,
      quota_exceeded = (\<lambda>n. False)\<rparr>"

definition sample_body :: PostBody where
  "sample_body =
     \<lparr>b_tasks = Some [sample_task 2], b_projects = Some [sample_project],
      b_deletedTasks = Some [sample_deleted]\<rparr>"

definition sample_mtask :: MTask where
  "sample_mtask =
     \<lparr>m_ident = ''task-1770285600000-k3j9x2abc'', m_title = utf16 ''Fix bug'', m_description = [],
      m_status = Done, m_priority = High, m_assignee = None, m_dueDate = None, m_tags = [],
      m_createdAt = ''2026-02-05T08:00:00.000Z'', m_updatedAt = ''2026-02-05T09:00:00.000Z'',
      m_completedAt = Some ''2026-02-05T09:00:00.000Z'', m_projectId = None\<rparr>"

definition sample_burst :: "(nat \<times> Mutation) list" where
  "sample_burst =
     [(0, PersistTasks [sample_task 1] None),
      (300, PersistProjects []),
      (10, EmptyTrash),
      (799, PersistTasks [sample_task 2] (Some [sample_deleted]))]"

definition sample_creates :: "Create list" where
  "sample_creates =
     [CreateTask filled_form (sample_clock 1770285600000),
      CreateProject (empty_newProject\<lparr>p_name := utf16 ''Tracker''\<rparr>) (sample_clock 1770285600000),
      CreateTask blank_form (sample_clock 1770285600000),
      CreateTask filled_form (sample_clock 1770285600001)]"

definition first_render :: App where
  "first_render = ProjectManager (Some sample_device) sample_remote"

definition twin_task :: Task where
  "twin_task = (sample_task 7)\<lparr>title := utf16 ''Write docs''\<rparr>"

definition twin_app :: App where
  "twin_app = first_render\<lparr>tasks := [sample_task 7, twin_task], deletedTasks := [sample_deleted]\<rparr>"

section \<open>Invariants used in the proofs\<close>

text \<open>
  Right after a mutation that returned normally: exactly one timeout is pending, it is
  the one \<open>saveTimer\<close> holds, it is due one debounce interval from now, and it closes
  over the document the page holds.
\<close>

definition write_pending :: "App \<Rightarrow> bool" where
  "write_pending s =
     (case saveTimer s of
        None \<Rightarrow> False
      | Some h \<Rightarrow>
          timers s = [(h, time s + 800, (tasks s, projects s, Some (deletedTasks s)))])"


text \<open>
  The ids of the task collection, trash entries included, and of the project collection.
\<close>

definition task_ids :: "App \<Rightarrow> string list" where
  "task_ids s = map ident (tasks s) @ map ident (deletedTasks s)"

definition project_ids :: "App \<Rightarrow> string list" where
  "project_ids s = map p_ident (projects s)"

section \<open>Properties\<close>

subsection \<open>What the persistence hook leaves alone\<close>

lemma saveLocal_in_frame:
  "tasks (snd (saveLocal_in s key v)) = tasks s"
  "deletedTasks (snd (saveLocal_in s key v)) = deletedTasks s"
  "projects (snd (saveLocal_in s key v)) = projects s"
  by (simp_all add: saveLocal_in_def split: prod.splits)

lemma debouncedSave_frame:
  "tasks (snd (debouncedSave s t p d)) = tasks s"
  "deletedTasks (snd (debouncedSave s t p d)) = deletedTasks s"
  "projects (snd (debouncedSave s t p d)) = projects s"
  by (auto simp: debouncedSave_def and_then_def saveLocal_in_def setTimeout_def clearTimeout_def Let_def
      split: option.splits prod.splits)

lemma persistTasks_result:
  "tasks (snd (persistTasks s t d)) = t"
  "deletedTasks (snd (persistTasks s t d)) = or_else d (deletedTasks s)"
  "projects (snd (persistTasks s t d)) = projects s"
  by (auto simp: persistTasks_def debouncedSave_frame Let_def or_else_def split: option.splits)

lemma softDeleteTask_result:
  "deletedTasks (snd (softDeleteTask s date i)) =
     (case find (\<lambda>t. ident t = i) (tasks s) of
        None \<Rightarrow> deletedTasks s
      | Some task \<Rightarrow> take MAX_DELETED (Task.extend task (DeletedTask.fields (toISOString date)) # deletedTasks s))"
  "tasks (snd (softDeleteTask s date i)) =
     (case find (\<lambda>t. ident t = i) (tasks s) of
        None \<Rightarrow> tasks s
      | Some task \<Rightarrow> filter (\<lambda>t. ident t \<noteq> i) (tasks s))"
  by (auto simp: softDeleteTask_def persistTasks_result Let_def or_else_def split: option.splits)


lemma callbacks_frame:
  "tasks (fold (\<lambda>(h, at, closure) s'. saveTimer_callback s' closure) due s) = tasks s
   \<and> projects (fold (\<lambda>(h, at, closure) s'. saveTimer_callback s' closure) due s) = projects s
   \<and> deletedTasks (fold (\<lambda>(h, at, closure) s'. saveTimer_callback s' closure) due s) = deletedTasks s
   \<and> window (fold (\<lambda>(h, at, closure) s'. saveTimer_callback s' closure) due s) = window s"
proof (induction due arbitrary: s)
  case Nil
  show ?case by simp
next
  case (Cons a due)
  obtain h at t p d where a: "a = (h, at, t, p, d)" by (cases a)
  have "tasks (saveTimer_callback s (t, p, d)) = tasks s"
    "projects (saveTimer_callback s (t, p, d)) = projects s"
    "deletedTasks (saveTimer_callback s (t, p, d)) = deletedTasks s"
    "window (saveTimer_callback s (t, p, d)) = window s"
    by (simp_all add: saveTimer_callback_def saveToApi_def Let_def
        split: prod.splits Fetched.splits)
  then show ?case unfolding a by (simp add: Cons.IH)
qed

lemma advance_frame:
  "tasks (advance s ms) = tasks s" "projects (advance s ms) = projects s"
  "deletedTasks (advance s ms) = deletedTasks s" "window (advance s ms) = window s"
  by (simp_all add: advance_def Let_def callbacks_frame)

lemma persistProjects_result:
  "tasks (snd (persistProjects s p)) = tasks s"
  "deletedTasks (snd (persistProjects s p)) = deletedTasks s"
  "projects (snd (persistProjects s p)) = p"
  by (simp_all add: persistProjects_def debouncedSave_frame)

lemma emptyTrash_result:
  "tasks (snd (emptyTrash s)) = tasks s"
  "deletedTasks (snd (emptyTrash s)) = []"
  "projects (snd (emptyTrash s)) = projects s"
  by (auto simp: emptyTrash_def Let_def and_then_def saveLocal_in_def debouncedSave_frame
      split: prod.splits option.splits)

subsection \<open>Decimal rendering is injective\<close>

lemma digit_inverse: "d < 10 \<Longrightarrow> (of_char (digit d) :: nat) = 48 + d"
proof -
  assume "d < 10"
  then have "d \<in> {0, 1, 2, 3, 4, 5, 6, 7, 8, 9}"
    by auto
  then show ?thesis
    by (auto simp: digit_def)
qed

lemma digit_inj:
  assumes "a < 10" and "b < 10" and "digit a = digit b"
  shows "a = b"
proof -
  have "48 + a = (of_char (digit a) :: nat)" using assms(1) by (simp add: digit_inverse)
  also have "\<dots> = of_char (digit b)" by (simp only: assms(3))
  also have "\<dots> = 48 + b" using assms(2) by (simp add: digit_inverse)
  finally show ?thesis by simp
qed

lemma toString_not_Nil: "toString n \<noteq> []"
  by (subst toString.simps) simp

lemma toString_inj: "toString m = toString n \<Longrightarrow> m = n"
proof (induction m arbitrary: n rule: toString.induct)
  case (1 m)
  show ?case
  proof (cases "m < 10")
    case True
    show ?thesis
    proof (cases "n < 10")
      case n: True
      from "1.prems" True n have "digit m = digit n"
        by (simp add: toString.simps)
      with True n show ?thesis by (intro digit_inj)
    next
      case n: False
      from "1.prems" True n have "[digit m] = toString (n div 10) @ [digit (n mod 10)]"
        by (simp add: toString.simps [of m] toString.simps [of n])
      then show ?thesis using toString_not_Nil [of "n div 10"] by simp
    qed
  next
    case False
    show ?thesis
    proof (cases "n < 10")
      case n: True
      from "1.prems" False n have "toString (m div 10) @ [digit (m mod 10)] = [digit n]"
        by (simp add: toString.simps [of m] toString.simps [of n])
      then show ?thesis using toString_not_Nil [of "m div 10"] by simp
    next
      case n: False
      from "1.prems" False n
      have "toString (m div 10) @ [digit (m mod 10)] = toString (n div 10) @ [digit (n mod 10)]"
        by (simp add: toString.simps [of m] toString.simps [of n])
      then have a: "toString (m div 10) = toString (n div 10)"
        and b: "digit (m mod 10) = digit (n mod 10)" by simp_all
      from a have "m div 10 = n div 10" by (rule "1.IH" [OF False])
      moreover from b have "m mod 10 = n mod 10" by (intro digit_inj) simp_all
      ultimately show ?thesis by (metis div_mult_mod_eq)
    qed
  qed
qed



subsection \<open>Debounced saving\<close>

lemma write_pendingE:
  assumes "write_pending s"
  obtains h where "timers s = [(h, time s + 800, (tasks s, projects s, Some (deletedTasks s)))]"
    and "saveTimer s = Some h"
  using assms by (auto simp: write_pending_def split: option.splits)

lemma debouncedSave_schedules:
  assumes r: "fst (debouncedSave s t p (Some d)) = None"
    and t: "timers s = [] \<or> (\<exists>h due c. timers s = [(h, due, c)] \<and> saveTimer s = Some h)"
  shows "timers (snd (debouncedSave s t p (Some d))) = [(timer_count s + 1, time s + 800, (t, p, Some d))]"
    and "saveTimer (snd (debouncedSave s t p (Some d))) = Some (timer_count s + 1)"
    and "requests (snd (debouncedSave s t p (Some d))) = requests s"
    and "time (snd (debouncedSave s t p (Some d))) = time s"
  using r t
  by (auto simp: debouncedSave_def and_then_def saveLocal_in_def setTimeout_def clearTimeout_def
      Let_def split: option.splits prod.splits)

lemma persistTasks_schedules:
  assumes r: "fst (persistTasks s t d) = None"
    and t: "timers s = [] \<or> (\<exists>h due c. timers s = [(h, due, c)] \<and> saveTimer s = Some h)"
  shows "write_pending (snd (persistTasks s t d))"
    and "requests (snd (persistTasks s t d)) = requests s"
proof -
  let ?s' = "(case d of None \<Rightarrow> s\<lparr>tasks := t\<rparr> | Some d' \<Rightarrow> s\<lparr>tasks := t, deletedTasks := d'\<rparr>)"
  have eq: "persistTasks s t d = debouncedSave ?s' t (projects s) (Some (or_else d (deletedTasks s)))"
    by (simp add: persistTasks_def Let_def split: option.splits)
  have t': "timers ?s' = [] \<or> (\<exists>h due c. timers ?s' = [(h, due, c)] \<and> saveTimer ?s' = Some h)"
    using t by (simp split: option.splits)
  have fr: "tasks ?s' = t" "projects ?s' = projects s" "deletedTasks ?s' = or_else d (deletedTasks s)"
    "time ?s' = time s" "timer_count ?s' = timer_count s" "requests ?s' = requests s"
    by (simp_all add: or_else_def split: option.splits)
  note ds = debouncedSave_schedules [OF r [unfolded eq] t']
  show "requests (snd (persistTasks s t d)) = requests s" unfolding eq using ds(3) fr by simp
  show "write_pending (snd (persistTasks s t d))"
    unfolding eq write_pending_def using ds fr
    by (simp add: debouncedSave_frame)
qed

lemma persistProjects_schedules:
  assumes r: "fst (persistProjects s p) = None"
    and t: "timers s = [] \<or> (\<exists>h due c. timers s = [(h, due, c)] \<and> saveTimer s = Some h)"
  shows "write_pending (snd (persistProjects s p))"
    and "requests (snd (persistProjects s p)) = requests s"
proof -
  let ?s' = "s\<lparr>projects := p\<rparr>"
  have eq: "persistProjects s p = debouncedSave ?s' (tasks s) p (Some (deletedTasks s))"
    by (simp add: persistProjects_def)
  have t': "timers ?s' = [] \<or> (\<exists>h due c. timers ?s' = [(h, due, c)] \<and> saveTimer ?s' = Some h)"
    using t by simp
  note ds = debouncedSave_schedules [OF r [unfolded eq] t']
  show "requests (snd (persistProjects s p)) = requests s" unfolding eq using ds(3) by simp
  show "write_pending (snd (persistProjects s p))"
    unfolding eq write_pending_def using ds
    by (simp add: debouncedSave_frame)
qed

text \<open>
  The two handlers that write the trash slot themselves and then call
  \<^verbatim>\<open>debouncedSave\<close>: they cannot return normally unless that first write did.
\<close>

lemma trash_then_save_schedules:
  assumes r: "fst (and_then (saveLocal_in s' pm_deleted_tasks_update dl) (\<lambda>s''.
                 debouncedSave s'' t p (Some dl))) = None"
    and t: "timers s' = [] \<or> (\<exists>h due c. timers s' = [(h, due, c)] \<and> saveTimer s' = Some h)"
    and f: "tasks s' = t" "projects s' = p" "deletedTasks s' = dl"
  shows "write_pending (snd (and_then (saveLocal_in s' pm_deleted_tasks_update dl) (\<lambda>s''.
                 debouncedSave s'' t p (Some dl))))"
    and "requests (snd (and_then (saveLocal_in s' pm_deleted_tasks_update dl) (\<lambda>s''.
                 debouncedSave s'' t p (Some dl)))) = requests s'"
proof -
  obtain e w where sl: "saveLocal (window s') pm_deleted_tasks_update dl = (e, w)"
    by (cases "saveLocal (window s') pm_deleted_tasks_update dl")
  let ?s1 = "s'\<lparr>window := w\<rparr>"
  from r sl have e: "e = None"
    by (cases e) (simp_all add: and_then_def saveLocal_in_def)
  have eq: "and_then (saveLocal_in s' pm_deleted_tasks_update dl) (\<lambda>s''.
                 debouncedSave s'' t p (Some dl)) = debouncedSave ?s1 t p (Some dl)"
    by (simp add: and_then_def saveLocal_in_def sl e)
  have t': "timers ?s1 = [] \<or> (\<exists>h due c. timers ?s1 = [(h, due, c)] \<and> saveTimer ?s1 = Some h)"
    using t by simp
  note ds = debouncedSave_schedules [OF r [unfolded eq] t']
  show "requests (snd (and_then (saveLocal_in s' pm_deleted_tasks_update dl) (\<lambda>s''.
                 debouncedSave s'' t p (Some dl)))) = requests s'"
    unfolding eq using ds(3) by simp
  show "write_pending (snd (and_then (saveLocal_in s' pm_deleted_tasks_update dl) (\<lambda>s''.
                 debouncedSave s'' t p (Some dl))))"
    unfolding eq write_pending_def using ds f
    by (simp add: debouncedSave_frame)
qed

lemma permanentDeleteTask_schedules:
  assumes r: "fst (permanentDeleteTask s i) = None"
    and t: "timers s = [] \<or> (\<exists>h due c. timers s = [(h, due, c)] \<and> saveTimer s = Some h)"
  shows "write_pending (snd (permanentDeleteTask s i))"
    and "requests (snd (permanentDeleteTask s i)) = requests s"
proof -
  let ?d = "filter (\<lambda>t. ident t \<noteq> i) (deletedTasks s)"
  let ?s' = "s\<lparr>deletedTasks := ?d\<rparr>"
  have eq: "permanentDeleteTask s i =
      and_then (saveLocal_in ?s' pm_deleted_tasks_update ?d) (\<lambda>s''.
        debouncedSave s'' (tasks s) (projects s) (Some ?d))"
    by (simp add: permanentDeleteTask_def Let_def)
  have t': "timers ?s' = [] \<or> (\<exists>h due c. timers ?s' = [(h, due, c)] \<and> saveTimer ?s' = Some h)"
    using t by simp
  note ts = trash_then_save_schedules [OF r [unfolded eq] t', simplified]
  show "write_pending (snd (permanentDeleteTask s i))" unfolding eq using ts(1) by simp
  show "requests (snd (permanentDeleteTask s i)) = requests s" unfolding eq using ts(2) by simp
qed

lemma emptyTrash_schedules:
  assumes r: "fst (emptyTrash s) = None"
    and t: "timers s = [] \<or> (\<exists>h due c. timers s = [(h, due, c)] \<and> saveTimer s = Some h)"
  shows "write_pending (snd (emptyTrash s))"
    and "requests (snd (emptyTrash s)) = requests s"
proof -
  let ?s' = "s\<lparr>deletedTasks := []\<rparr>"
  have eq: "emptyTrash s =
      and_then (saveLocal_in ?s' pm_deleted_tasks_update []) (\<lambda>s''.
        debouncedSave s'' (tasks s) (projects s) (Some []))"
    by (simp add: emptyTrash_def Let_def)
  have t': "timers ?s' = [] \<or> (\<exists>h due c. timers ?s' = [(h, due, c)] \<and> saveTimer ?s' = Some h)"
    using t by simp
  note ts = trash_then_save_schedules [OF r [unfolded eq] t', simplified]
  show "write_pending (snd (emptyTrash s))" unfolding eq using ts(1) by simp
  show "requests (snd (emptyTrash s)) = requests s" unfolding eq using ts(2) by simp
qed

lemma mutate_schedules:
  assumes r: "fst (mutate s m) = None"
    and t: "timers s = [] \<or> (\<exists>h due c. timers s = [(h, due, c)] \<and> saveTimer s = Some h)"
  shows "write_pending (snd (mutate s m))" and "requests (snd (mutate s m)) = requests s"
proof -
  show "write_pending (snd (mutate s m))"
    using r t
    by (cases m)
      (simp_all add: persistTasks_schedules persistProjects_schedules
        permanentDeleteTask_schedules emptyTrash_schedules)
  show "requests (snd (mutate s m)) = requests s"
    using r t
    by (cases m)
      (simp_all add: persistTasks_schedules persistProjects_schedules
        permanentDeleteTask_schedules emptyTrash_schedules)
qed

lemma advance_idle:
  assumes "timers s = []"
  shows "advance s ms = s\<lparr>time := time s + ms\<rparr>"
  using assms by (simp add: advance_def Let_def)

lemma advance_early:
  assumes "timers s = [(h, due, c)]" and "time s + ms < due"
  shows "advance s ms = s\<lparr>time := time s + ms\<rparr>"
  using assms by (simp add: advance_def Let_def)

lemma advance_due:
  assumes "timers s = [(h, due, (t, p, d))]" and "due \<le> time s + ms"
  shows "requests (advance s ms) = requests s @ [\<lparr>b_tasks = Some t, b_projects = Some p, b_deletedTasks = d\<rparr>]"
    and "timers (advance s ms) = []"
    and "syncStatus (advance s ms) = Saved"
  using assms
  by (auto simp: advance_def Let_def saveTimer_callback_def saveToApi_def split: prod.splits Fetched.splits)

lemma burst_pending:
  assumes "write_pending s" and "returns s ms" and "\<forall>(gap, m) \<in> set ms. gap < 800"
  shows "write_pending (burst s ms) \<and> requests (burst s ms) = requests s"
  using assms
proof (induction ms arbitrary: s)
  case Nil
  then show ?case by simp
next
  case (Cons a ms)
  obtain gap m where a: "a = (gap, m)" by (cases a)
  from Cons.prems(3) a have gap: "gap < 800" by simp
  from Cons.prems(1) obtain h where
    h: "timers s = [(h, time s + 800, (tasks s, projects s, Some (deletedTasks s)))]"
      "saveTimer s = Some h"
    by (rule write_pendingE)
  have adv: "advance s gap = s\<lparr>time := time s + gap\<rparr>"
    using gap by (intro advance_early [OF h(1)]) linarith
  let ?s1 = "snd (mutate (advance s gap) m)"
  from Cons.prems(2) a have r: "fst (mutate (advance s gap) m) = None" and rest: "returns ?s1 ms"
    by simp_all
  have t: "timers (advance s gap) = []
      \<or> (\<exists>h due c. timers (advance s gap) = [(h, due, c)] \<and> saveTimer (advance s gap) = Some h)"
    unfolding adv using h by simp
  have "write_pending ?s1" and r1: "requests ?s1 = requests s"
    using mutate_schedules [OF r t] by (simp_all add: adv)
  moreover have "\<forall>(gap, m) \<in> set ms. gap < 800" using Cons.prems(3) by simp
  ultimately have "write_pending (burst ?s1 ms) \<and> requests (burst ?s1 ms) = requests ?s1"
    using rest by (intro Cons.IH)
  then show ?case unfolding a using r1 by simp
qed

text \<open>
  The debounce where no cache write throws. With no timeout pending at the start, after
  one or more mutations whose handlers all return normally, each less than the debounce
  interval (800 ms) after the one before, no \<^verbatim>\<open>POST\<close> has been issued during the
  burst or before the interval has passed since the last mutation; once it has passed,
  exactly one has been issued, with the document as the last mutation left it, and no
  timeout is left.
\<close>

theorem debounce_coalesces:
  assumes "returns s ms" and "timers s = []" and "ms \<noteq> []"
    and "\<forall>(gap, m) \<in> set (tl ms). gap < 800"
  shows "requests (burst s ms) = requests s
    \<and> requests (advance (burst s ms) wait) =
        (if wait < 800 then requests s else requests s @ [snapshot (burst s ms)])
    \<and> timers (advance (burst s ms) wait) = (if wait < 800 then timers (burst s ms) else [])"
proof -
  from assms(3) obtain gap m rest where ms: "ms = (gap, m) # rest"
    by (cases ms) auto
  let ?s1 = "snd (mutate (advance s gap) m)"
  have adv: "advance s gap = s\<lparr>time := time s + gap\<rparr>"
    using assms(2) by (rule advance_idle)
  from assms(1) ms have r: "fst (mutate (advance s gap) m) = None" and rest: "returns ?s1 rest"
    by simp_all
  have t: "timers (advance s gap) = []
      \<or> (\<exists>h due c. timers (advance s gap) = [(h, due, c)] \<and> saveTimer (advance s gap) = Some h)"
    unfolding adv using assms(2) by simp
  have "write_pending ?s1" and r1: "requests ?s1 = requests s"
    using mutate_schedules [OF r t] by (simp_all add: adv)
  moreover have "\<forall>(gap, m) \<in> set rest. gap < 800" using assms(4) ms by simp
  ultimately have "write_pending (burst ?s1 rest) \<and> requests (burst ?s1 rest) = requests ?s1"
    using rest by (intro burst_pending)
  then have p: "write_pending (burst s ms)" and r: "requests (burst s ms) = requests s"
    unfolding ms using r1 by simp_all
  from p obtain h where
    h: "timers (burst s ms) = [(h, time (burst s ms) + 800,
          (tasks (burst s ms), projects (burst s ms), Some (deletedTasks (burst s ms))))]"
    by (rule write_pendingE)
  show ?thesis
  proof (cases "wait < 800")
    case True
    then have "advance (burst s ms) wait = (burst s ms)\<lparr>time := time (burst s ms) + wait\<rparr>"
      by (intro advance_early [OF h]) linarith
    with True r show ?thesis by simp
  next
    case False
    then have "time (burst s ms) + 800 \<le> time (burst s ms) + wait" by linarith
    from advance_due [OF h this] False r show ?thesis by (simp add: snapshot_def)
  qed
qed

theorem debounce_coalesces_witness:
  "returns sample_app sample_burst \<and> timers sample_app = [] \<and> sample_burst \<noteq> []
   \<and> list_all (\<lambda>(gap, m). gap < 800) (tl sample_burst)
   \<and> requests (advance (burst sample_app sample_burst) 800) =
       [\<lparr>b_tasks = Some [sample_task 2], b_projects = Some [],
         b_deletedTasks = Some [sample_deleted]\<rparr>]
   \<and> timers (advance (burst sample_app sample_burst) 800) = []"
proof -
  have a1: "returns sample_app sample_burst"
    by (simp add: sample_burst_def persistTasks_def persistProjects_def emptyTrash_def
        debouncedSave_def and_then_def saveLocal_in_def saveLocal_def setItem_def
        sample_app_def ProjectManager_def sample_device_def Let_def or_else_def
        setTimeout_def clearTimeout_def advance_def)
  have a2: "timers sample_app = []"
    by (simp add: sample_app_def ProjectManager_def)
  have a3: "sample_burst \<noteq> []"
    by (simp add: sample_burst_def)
  have a4: "\<forall>(gap, m) \<in> set (tl sample_burst). gap < 800"
    by (simp add: sample_burst_def)
  have r0: "requests sample_app = []"
    by (simp add: sample_app_def ProjectManager_def)
  have snap: "snapshot (burst sample_app sample_burst) =
       \<lparr>b_tasks = Some [sample_task 2], b_projects = Some [],
         b_deletedTasks = Some [sample_deleted]\<rparr>"
    by (simp add: snapshot_def sample_burst_def persistTasks_result persistProjects_result
        emptyTrash_result advance_frame or_else_def)
  from debounce_coalesces [OF a1 a2 a3 a4, of 800] a1 a2 a3 a4 r0 snap
  show ?thesis by (simp add: list_all_iff)
qed

text \<open>
  Claim C2, on two stores that reject a cache write. \<^verbatim>\<open>debouncedSave\<close> writes the
  cache before it clears and sets the timeout, and \<^verbatim>\<open>saveLocal\<close> lets the error of
  \<^verbatim>\<open>setItem\<close> through. On a full store one mutation changes the tasks in memory and
  schedules nothing: when the debounce interval has passed no \<^verbatim>\<open>POST\<close> has been
  issued. On a store with room for three writes, the second of two mutations 100 ms
  apart throws at its first write and leaves the timeout of the first in place: the one
  \<^verbatim>\<open>POST\<close> carries the tasks of the first mutation, not those of the second, which
  the page holds.
\<close>

theorem rejected_cache_write_breaks_debounce:
  "tasks (burst (sample_app\<lparr>window := Some full_device\<rparr>)
            [(0, PersistTasks [sample_task 1] None)]) = [sample_task 1]
   \<and> requests (advance (burst (sample_app\<lparr>window := Some full_device\<rparr>)
            [(0, PersistTasks [sample_task 1] None)]) 800) = []
   \<and> tasks (burst (sample_app\<lparr>window := Some filling_device\<rparr>)
            [(0, PersistTasks [sample_task 1] None), (100, PersistTasks [sample_task 2] None)])
       = [sample_task 2]
   \<and> requests (advance (burst (sample_app\<lparr>window := Some filling_device\<rparr>)
            [(0, PersistTasks [sample_task 1] None), (100, PersistTasks [sample_task 2] None)]) 800)
       = [\<lparr>b_tasks = Some [sample_task 1], b_projects = Some DEFAULT_PROJECTS,
           b_deletedTasks = Some []\<rparr>]"
  by (simp add: persistTasks_def debouncedSave_def and_then_def saveLocal_in_def saveLocal_def
      setItem_def sample_app_def ProjectManager_def sample_device_def full_device_def
      filling_device_def Let_def or_else_def setTimeout_def clearTimeout_def advance_def
      saveTimer_callback_def saveToApi_def fetch_POST_def POST_def sample_remote_def
      sample_server_def)


subsection \<open>Capacity of the trash\<close>












subsection \<open>Creating a task\<close>

lemma and_then_newTask:
  "tasks (snd (and_then r (\<lambda>s. (None, s\<lparr>newTask := x\<rparr>)))) = tasks (snd r)"
  "projects (snd (and_then r (\<lambda>s. (None, s\<lparr>newTask := x\<rparr>)))) = projects (snd r)"
  "deletedTasks (snd (and_then r (\<lambda>s. (None, s\<lparr>newTask := x\<rparr>)))) = deletedTasks (snd r)"
  by (cases r; cases "fst r"; simp add: and_then_def)+





subsection \<open>Ids of created tasks and projects\<close>

lemma and_then_newProject:
  "tasks (snd (and_then r (\<lambda>s. (None, s\<lparr>newProject := x\<rparr>)))) = tasks (snd r)"
  "projects (snd (and_then r (\<lambda>s. (None, s\<lparr>newProject := x\<rparr>)))) = projects (snd r)"
  "deletedTasks (snd (and_then r (\<lambda>s. (None, s\<lparr>newProject := x\<rparr>)))) = deletedTasks (snd r)"
  by (cases r; cases "fst r"; simp add: and_then_def)+

lemma create_task_ids:
  "task_ids (create s (CreateTask input date)) =
     (if trim (n_title input) = [] then task_ids s else toString (now date) # task_ids s)"
  "project_ids (create s (CreateTask input date)) = project_ids s"
  by (simp_all add: task_ids_def project_ids_def addTask_def Let_def and_then_newTask
      persistTasks_result or_else_def)

lemma create_project_ids:
  "project_ids (create s (CreateProject input date)) =
     (if trim (p_name input) = [] then project_ids s else toString (now date) # project_ids s)"
  "task_ids (create s (CreateProject input date)) = task_ids s"
  by (simp_all add: task_ids_def project_ids_def addProject_def Let_def and_then_newProject
      persistProjects_result ProjectInput.defs Project.defs)

lemma creates_Cons: "creates s (op # ops) = creates (create s op) ops"
  by (simp add: creates_def)

text \<open>
  Claim C9 as stated fails: an id is the clock reading in decimal, so two tasks created
  at the same reading get the same id.
\<close>

theorem same_reading_same_id:
  "distinct (task_ids first_render)
   \<and> task_ids (creates first_render
        [CreateTask filled_form (sample_clock 1770285600000),
         CreateTask filled_form (sample_clock 1770285600000)])
     = [''1770285600000'', ''1770285600000'', ''1'', ''2'', ''3'', ''4'', ''5'', ''6'']
   \<and> \<not> distinct (task_ids (creates first_render
        [CreateTask filled_form (sample_clock 1770285600000),
         CreateTask filled_form (sample_clock 1770285600000)]))"
proof -
  have i: "toString (now (sample_clock 1770285600000)) = ''1770285600000''"
    by (simp add: sample_clock_def toString.simps digit_def)
  have f: "trim (n_title filled_form) \<noteq> []"
    by (simp add: filled_form_def empty_newTask_def trim_def is_space_def utf16_def)
  have d: "task_ids first_render = [''1'', ''2'', ''3'', ''4'', ''5'', ''6'']"
    by (simp add: task_ids_def first_render_def ProjectManager_def DEFAULT_TASKS_def)
  have "task_ids (creates first_render
        [CreateTask filled_form (sample_clock 1770285600000),
         CreateTask filled_form (sample_clock 1770285600000)])
     = [''1770285600000'', ''1770285600000'', ''1'', ''2'', ''3'', ''4'', ''5'', ''6'']"
    unfolding creates_def fold_simps comp_def
    by (simp add: create_task_ids f i d del: create.simps)
  with d show ?thesis by simp
qed

text \<open>
  Claim C9, amended. From a state whose task ids (trash entries included) are pairwise
  different and whose project ids are pairwise different, a sequence of create
  operations keeps both so, provided the clock readings at which it creates tasks are
  pairwise different and none of them, in decimal, is a task id already there, and
  likewise for the projects. A create that is refused (blank title or name) reads no
  clock and does not count.
\<close>

theorem creates_unique:
  assumes "distinct (task_ids s)" and "distinct (project_ids s)"
    and "distinct (task_times ops)" and "distinct (project_times ops)"
    and "\<forall>n \<in> set (task_times ops). toString n \<notin> set (task_ids s)"
    and "\<forall>n \<in> set (project_times ops). toString n \<notin> set (project_ids s)"
  shows "distinct (task_ids (creates s ops)) \<and> distinct (project_ids (creates s ops))"
  using assms
proof (induction ops arbitrary: s)
  case Nil
  then show ?case by (simp add: creates_def)
next
  case (Cons op ops)
  show ?case
  proof (cases op)
    case (CreateTask input date)
    show ?thesis
    proof (cases "trim (n_title input) = []")
      case True
      with Cons.prems CreateTask show ?thesis
        unfolding creates_Cons CreateTask
        by (intro Cons.IH) (simp_all add: create_task_ids del: create.simps)
    next
      case False
      have fresh: "toString n \<noteq> toString (now date)" if "n \<in> set (task_times ops)" for n
        using that Cons.prems(3) CreateTask False by (auto dest: toString_inj)
      with Cons.prems CreateTask False show ?thesis
        unfolding creates_Cons CreateTask
        by (intro Cons.IH) (auto simp add: create_task_ids simp del: create.simps)
    qed
  next
    case (CreateProject input date)
    show ?thesis
    proof (cases "trim (p_name input) = []")
      case True
      with Cons.prems CreateProject show ?thesis
        unfolding creates_Cons CreateProject
        by (intro Cons.IH) (simp_all add: create_project_ids del: create.simps)
    next
      case False
      have fresh: "toString n \<noteq> toString (now date)" if "n \<in> set (project_times ops)" for n
        using that Cons.prems(4) CreateProject False by (auto dest: toString_inj)
      with Cons.prems CreateProject False show ?thesis
        unfolding creates_Cons CreateProject
        by (intro Cons.IH) (auto simp add: create_project_ids simp del: create.simps)
    qed
  qed
qed

theorem creates_unique_witness:
  "distinct (task_ids first_render) \<and> distinct (project_ids first_render)
   \<and> task_times sample_creates = [1770285600000, 1770285600001]
   \<and> project_times sample_creates = [1770285600000]
   \<and> distinct (task_times sample_creates) \<and> distinct (project_times sample_creates)
   \<and> list_all (\<lambda>n. toString n \<notin> set (task_ids first_render)) (task_times sample_creates)
   \<and> list_all (\<lambda>n. toString n \<notin> set (project_ids first_render)) (project_times sample_creates)
   \<and> distinct (task_ids (creates first_render sample_creates))
   \<and> distinct (project_ids (creates first_render sample_creates))"
proof -
  have i: "toString 1770285600000 = ''1770285600000''" "toString 1770285600001 = ''1770285600001''"
    by (simp_all add: toString.simps digit_def)
  have tt: "task_times sample_creates = [1770285600000, 1770285600001]"
    by (simp add: sample_creates_def filled_form_def blank_form_def empty_newTask_def
        sample_clock_def trim_def is_space_def utf16_def)
  have pt: "project_times sample_creates = [1770285600000]"
    by (simp add: sample_creates_def empty_newProject_def sample_clock_def trim_def is_space_def
        utf16_def)
  have d: "task_ids first_render = [''1'', ''2'', ''3'', ''4'', ''5'', ''6'']"
    by (simp add: task_ids_def first_render_def ProjectManager_def DEFAULT_TASKS_def)
  have p: "project_ids first_render = map p_ident DEFAULT_PROJECTS"
    by (simp add: project_ids_def first_render_def ProjectManager_def)
  have h1: "distinct (task_ids first_render)"
    unfolding d by simp
  have h2: "distinct (project_ids first_render)"
    unfolding p by (simp add: DEFAULT_PROJECTS_def)
  have h3: "distinct (task_times sample_creates)" and h4: "distinct (project_times sample_creates)"
    unfolding tt pt by simp_all
  have h5: "\<forall>n \<in> set (task_times sample_creates). toString n \<notin> set (task_ids first_render)"
    unfolding tt d by (simp add: i)
  have h6: "\<forall>n \<in> set (project_times sample_creates). toString n \<notin> set (project_ids first_render)"
    unfolding pt p by (simp add: i DEFAULT_PROJECTS_def)
  from creates_unique [OF h1 h2 h3 h4 h5 h6] h1 h2 h3 h4 h5 h6 tt pt
  show ?thesis by (simp add: list_all_iff)
qed


subsection \<open>Loading on mount\<close>

text \<open>
  Claim C1, on a concrete load. The remote store holds a document with tasks and
  projects that the page itself posted, trash included; the device store holds one task,
  no project and one trash entry. The answer to \<^verbatim>\<open>GET\<close> is authoritative and has
  no trash, so \<^verbatim>\<open>loadFromApi\<close> puts \<^verbatim>\<open>[]\<close> there. \<^verbatim>\<open>load\<close> takes the remote
  tasks and projects, and for the trash it evaluates
  \<^verbatim>\<open>apiData.deletedTasks || localD\<close>: the empty array is truthy, so the loaded trash
  is empty and the entry of the device store is overwritten with the empty list, where
  the rule "remote if non-empty, else local" gives the local entry.
\<close>

theorem load_discards_local_trash:
  "loadLocal (Some cached_device) pm_deleted_tasks [] = [sample_deleted]
   \<and> map_option a_deletedTasks
         (loadFromApi (fetch_GET (snd (fetch_POST sample_remote sample_body)))) = Some []
   \<and> tasks (snd (load (ProjectManager (Some cached_device)
                         (snd (fetch_POST sample_remote sample_body))))) = [sample_task 2]
   \<and> projects (snd (load (ProjectManager (Some cached_device)
                            (snd (fetch_POST sample_remote sample_body))))) = [sample_project]
   \<and> deletedTasks (snd (load (ProjectManager (Some cached_device)
                                (snd (fetch_POST sample_remote sample_body))))) = []
   \<and> map_option pm_deleted_tasks
         (window (snd (load (ProjectManager (Some cached_device)
                               (snd (fetch_POST sample_remote sample_body)))))) = Some (Some [])"
  by (simp add: load_def loadLocal_def loadFromApi_def fetch_GET_def fetch_POST_def POST_def
      GET_def sample_remote_def sample_server_def sample_body_def cached_device_def
      ProjectManager_def or_else_def Let_def and_then_def saveLocal_in_def saveLocal_def
      setItem_def)


subsection \<open>Completion dates\<close>

text \<open>
  Claim C4, on a concrete task. A task that is done and has a completion date is
  opened in the dialog, its status is set to \<open>Todo\<close> there and the dialog is saved:
  \<^verbatim>\<open>handleSubmit\<close> keeps the completion date (\<^verbatim>\<open>task?.completedAt || null\<close>),
  where the status-change handler on the same task sets it to \<^verbatim>\<open>null\<close>.
\<close>

theorem edit_form_keeps_completedAt:
  "m_status sample_mtask = Done
   \<and> edit_status [sample_mtask] sample_mtask (sample_clock 1770285600000) ''zzzzzzzzz'' Todo
       = [sample_mtask\<lparr>m_status := Todo, m_updatedAt := ''2026-02-05T10:00:00.000Z''\<rparr>]
   \<and> map m_completedAt
         (edit_status [sample_mtask] sample_mtask (sample_clock 1770285600000) ''zzzzzzzzz'' Todo)
       = [Some ''2026-02-05T09:00:00.000Z'']
   \<and> map m_completedAt
         (handleStatusChange [sample_mtask] (sample_clock 1770285600000) (m_ident sample_mtask) Todo)
       = [None]"
  by (simp add: edit_status_def handleSubmit_def form_of_def handleSaveTask_def
      handleStatusChange_def sample_mtask_def sample_clock_def trim_def is_space_def
      truthy_def opt_or_null_def or_else_def Let_def utf16_def)


subsection \<open>The document in the remote store\<close>

text \<open>
  Claim C5, on a concrete document. A \<^verbatim>\<open>POST\<close> of tasks, projects and one trash
  entry succeeds; the row it writes has the tasks and the projects and no trash, and the
  \<^verbatim>\<open>GET\<close> that follows returns the tasks and the projects and no
  \<^verbatim>\<open>deletedTasks\<close>.
\<close>

theorem POST_drops_deletedTasks:
  "r_success (fst (POST sample_server (Some sample_body)))
   \<and> kv_store (snd (POST sample_server (Some sample_body))) =
       Row \<lparr>v_tasks = Some [sample_task 2], v_projects = Some [sample_project],
            v_deletedTasks = None, v_lastUpdated = Some (server_time sample_server)\<rparr>
   \<and> g_tasks (GET (snd (POST sample_server (Some sample_body)))) = [sample_task 2]
   \<and> g_projects (GET (snd (POST sample_server (Some sample_body)))) = [sample_project]
   \<and> g_deletedTasks (GET (snd (POST sample_server (Some sample_body)))) = None
   \<and> b_deletedTasks sample_body = Some [sample_deleted]"
  by (simp add: POST_def GET_def sample_server_def sample_body_def or_else_def Let_def)


subsection \<open>A failed save\<close>

text \<open>
  Claim C6, on two failures. A mutation schedules the save; when the debounce interval
  has passed the network is down, so the \<^verbatim>\<open>fetch\<close> is rejected: the one \<^verbatim>\<open>POST\<close>
  was issued and the sync status is \<open>Saved\<close>. The same with the network up and the
  store not configured, where \<^verbatim>\<open>POST\<close> answers 500 with \<^verbatim>\<open>success: false\<close>:
  the status is \<open>Saved\<close> again. No path of the page sets \<open>Error\<close>.
\<close>

theorem failed_POST_reads_saved:
  "requests (advance (snd (persistTasks (sample_app\<lparr>remote := sample_remote\<lparr>online := False\<rparr>\<rparr>)
                              [sample_task 1] None)) 800)
     = [\<lparr>b_tasks = Some [sample_task 1], b_projects = Some DEFAULT_PROJECTS,
         b_deletedTasks = Some []\<rparr>]
   \<and> fst (fetch_POST (sample_remote\<lparr>online := False\<rparr>)
            \<lparr>b_tasks = Some [sample_task 1], b_projects = Some DEFAULT_PROJECTS,
             b_deletedTasks = Some []\<rparr>) = Rejected
   \<and> syncStatus (advance (snd (persistTasks (sample_app\<lparr>remote := sample_remote\<lparr>online := False\<rparr>\<rparr>)
                                [sample_task 1] None)) 800) = Saved
   \<and> r_success (fst (POST (sample_server\<lparr>supabase := False\<rparr>) (Some sample_body))) = False
   \<and> syncStatus (advance (snd (persistTasks
          (sample_app\<lparr>remote := sample_remote\<lparr>server := sample_server\<lparr>supabase := False\<rparr>\<rparr>\<rparr>)
                                [sample_task 1] None)) 800) = Saved"
  by (simp add: persistTasks_def debouncedSave_def and_then_def saveLocal_in_def saveLocal_def
      setItem_def sample_app_def ProjectManager_def sample_device_def Let_def or_else_def
      setTimeout_def clearTimeout_def advance_def saveTimer_callback_def saveToApi_def
      fetch_POST_def POST_def sample_remote_def sample_server_def)


subsection \<open>Writing to a full device store\<close>

text \<open>
  Claim C7, on a full store. \<^verbatim>\<open>saveLocal\<close> passes on what \<^verbatim>\<open>setItem\<close> throws;
  the throw leaves \<^verbatim>\<open>persistTasks\<close> too, before \<^verbatim>\<open>debouncedSave\<close> has set its
  timeout, so no save to the remote store is scheduled.
\<close>

theorem saveLocal_throws:
  "fst (saveLocal (Some full_device) pm_tasks_update [sample_task 1]) = Some QuotaExceededError
   \<and> fst (persistTasks (sample_app\<lparr>window := Some full_device\<rparr>) [sample_task 1] None)
       = Some QuotaExceededError
   \<and> timers (snd (persistTasks (sample_app\<lparr>window := Some full_device\<rparr>) [sample_task 1] None))
       = []"
  by (simp add: saveLocal_def setItem_def full_device_def persistTasks_def debouncedSave_def
      and_then_def saveLocal_in_def sample_app_def sample_device_def ProjectManager_def Let_def)


subsection \<open>Soft delete and restore\<close>

lemma restoreTask_result:
  "deletedTasks (snd (restoreTask s i)) =
     (case find (\<lambda>t. ident t = i) (deletedTasks s) of
        None \<Rightarrow> deletedTasks s
      | Some task \<Rightarrow> filter (\<lambda>t. ident t \<noteq> i) (deletedTasks s))"
  "tasks (snd (restoreTask s i)) =
     (case find (\<lambda>t. ident t = i) (deletedTasks s) of
        None \<Rightarrow> tasks s
      | Some task \<Rightarrow> Task.truncate task # tasks s)"
  by (auto simp: restoreTask_def persistTasks_result Let_def or_else_def split: option.splits)

lemma truncate_extend: "Task.truncate (Task.extend t (DeletedTask.fields d)) = t"
  by (simp add: Task.defs DeletedTask.defs)

lemma ident_extend: "ident (Task.extend t (DeletedTask.fields d)) = ident t"
  by (simp add: Task.defs DeletedTask.defs)

lemma find_absent: "i \<notin> f ` set xs \<Longrightarrow> find (\<lambda>t. f t = i) xs = None"
  by (induction xs) auto

lemma filter_absent: "i \<notin> f ` set xs \<Longrightarrow> filter (\<lambda>t. f t \<noteq> i) xs = xs"
  by (induction xs) auto

text \<open>
  Claim C10 as stated fails where an id occurs twice: \<^verbatim>\<open>softDeleteTask\<close> and
  \<^verbatim>\<open>restoreTask\<close> find the first entry with the id and filter out every entry with
  it. Here the live collection holds two tasks with one id and the trash an entry with
  that id too; deleting and restoring the second task empties the trash and brings back
  the first task only.
\<close>

theorem restore_with_twin_ids:
  "twin_task \<in> set (tasks twin_app) \<and> length (deletedTasks twin_app) < MAX_DELETED
   \<and> deletedTasks twin_app = [sample_deleted]
   \<and> deletedTasks (snd (restoreTask (snd (softDeleteTask twin_app (sample_clock 1770285600000)
         (ident twin_task))) (ident twin_task))) = []
   \<and> tasks (snd (restoreTask (snd (softDeleteTask twin_app (sample_clock 1770285600000)
         (ident twin_task))) (ident twin_task))) = [sample_task 7]
   \<and> sample_task 7 \<noteq> twin_task"
  by (simp add: twin_app_def twin_task_def sample_deleted_def restoreTask_result
      softDeleteTask_result MAX_DELETED_def sample_task_def Task.defs DeletedTask.defs
      utf16_def)

text \<open>
  Claim C10, amended. If \<open>t\<close> is the first task of the live collection with its id,
  the trash holds fewer than \<open>MAX_DELETED\<close> entries and none of them has the id of
  \<open>t\<close>, then \<^verbatim>\<open>softDeleteTask\<close> of that id followed by \<^verbatim>\<open>restoreTask\<close> of it
  leaves the trash exactly as it was, and the live collection is \<open>t\<close> itself (no
  \<open>deletedAt\<close>) in front of the other tasks, those with another id, in their order.
  \<^verbatim>\<open>softDeleteTask\<close> of an id that no live task has returns with the state as it
  was, and so does \<^verbatim>\<open>restoreTask\<close> of an id that no trash entry has.
\<close>

theorem soft_delete_restore:
  "(find (\<lambda>u. ident u = ident t) (tasks s) = Some t
      \<and> length (deletedTasks s) < MAX_DELETED
      \<and> ident t \<notin> ident ` set (deletedTasks s) \<longrightarrow>
        deletedTasks (snd (restoreTask (snd (softDeleteTask s date (ident t))) (ident t)))
          = deletedTasks s
        \<and> tasks (snd (restoreTask (snd (softDeleteTask s date (ident t))) (ident t)))
          = t # filter (\<lambda>u. ident u \<noteq> ident t) (tasks s))
   \<and> (i \<notin> ident ` set (tasks s) \<longrightarrow> softDeleteTask s date i = (None, s))
   \<and> (i \<notin> ident ` set (deletedTasks s) \<longrightarrow> restoreTask s i = (None, s))"
proof (intro conjI impI)
  assume a: "find (\<lambda>u. ident u = ident t) (tasks s) = Some t
      \<and> length (deletedTasks s) < MAX_DELETED
      \<and> ident t \<notin> ident ` set (deletedTasks s)"
  let ?d = "Task.extend t (DeletedTask.fields (toISOString date))"
  let ?s1 = "snd (softDeleteTask s date (ident t))"
  have d1: "deletedTasks ?s1 = ?d # deletedTasks s"
    using a by (simp add: softDeleteTask_result)
  have t1: "tasks ?s1 = filter (\<lambda>u. ident u \<noteq> ident t) (tasks s)"
    using a by (simp add: softDeleteTask_result)
  have f: "find (\<lambda>u. ident u = ident t) (deletedTasks ?s1) = Some ?d"
    unfolding d1 by (simp add: ident_extend)
  show "deletedTasks (snd (restoreTask ?s1 (ident t))) = deletedTasks s"
    using a by (simp add: restoreTask_result f) (simp add: d1 ident_extend filter_absent)
  show "tasks (snd (restoreTask ?s1 (ident t))) = t # filter (\<lambda>u. ident u \<noteq> ident t) (tasks s)"
    by (simp add: restoreTask_result f truncate_extend t1)
next
  assume "i \<notin> ident ` set (tasks s)"
  then show "softDeleteTask s date i = (None, s)"
    by (simp add: softDeleteTask_def find_absent)
next
  assume "i \<notin> ident ` set (deletedTasks s)"
  then show "restoreTask s i = (None, s)"
    by (simp add: restoreTask_def find_absent)
qed

theorem soft_delete_restore_witness:
  "find (\<lambda>u. ident u = ident (sample_task 3)) (tasks sample_app) = Some (sample_task 3)
   \<and> length (deletedTasks sample_app) < MAX_DELETED
   \<and> ident (sample_task 3) \<notin> ident ` set (deletedTasks sample_app)
   \<and> ''99'' \<notin> ident ` set (tasks sample_app)
   \<and> ''99'' \<notin> ident ` set (deletedTasks sample_app)
   \<and> deletedTasks (snd (restoreTask (snd (softDeleteTask sample_app (sample_clock 1770285600000)
         (ident (sample_task 3)))) (ident (sample_task 3)))) = deletedTasks sample_app
   \<and> hd (tasks (snd (restoreTask (snd (softDeleteTask sample_app (sample_clock 1770285600000)
         (ident (sample_task 3)))) (ident (sample_task 3))))) = sample_task 3
   \<and> softDeleteTask sample_app (sample_clock 1770285600000) ''99'' = (None, sample_app)
   \<and> restoreTask sample_app ''99'' = (None, sample_app)"
proof -
  have ids: "map ident (tasks sample_app) = map toString [0..<21]"
    by (simp add: sample_app_def sample_task_def comp_def)
  have h1: "find (\<lambda>u. ident u = ident (sample_task 3)) (tasks sample_app) = Some (sample_task 3)"
    by (simp add: sample_app_def) code_simp
  have h2: "length (deletedTasks sample_app) < MAX_DELETED"
    by (simp add: sample_app_def ProjectManager_def MAX_DELETED_def)
  have h3: "ident (sample_task 3) \<notin> ident ` set (deletedTasks sample_app)"
    by (simp add: sample_app_def ProjectManager_def)
  have "''99'' \<notin> set (map toString [0..<21])" by code_simp
  then have h4: "''99'' \<notin> ident ` set (tasks sample_app)"
    unfolding ids [symmetric] by simp
  have h5: "''99'' \<notin> ident ` set (deletedTasks sample_app)"
    by (simp add: sample_app_def ProjectManager_def)
  from soft_delete_restore [of "sample_task 3" sample_app "sample_clock 1770285600000" "''99''"]
    h1 h2 h3 h4 h5
  show ?thesis by simp
qed


subsection \<open>Further properties\<close>

text \<open>
  The status-change handler and completion dates. The task with the given id gets the
  new status; its completion date is cleared when the new status is not \<open>Done\<close>, kept
  when the status is \<open>Done\<close> and a date is there, and set to the clock reading when the
  status is \<open>Done\<close> and no date is there. Every other task stays as it was.
\<close>

theorem handleStatusChange_completedAt:
  "k < length prev \<longrightarrow>
     (if m_ident (prev ! k) \<noteq> i then handleStatusChange prev date i st ! k = prev ! k
      else m_status (handleStatusChange prev date i st ! k) = st
         \<and> m_completedAt (handleStatusChange prev date i st ! k) =
             (if st \<noteq> Done then None
              else if truthy (m_completedAt (prev ! k)) then m_completedAt (prev ! k)
              else Some (toISOString date)))"
  by (simp add: handleStatusChange_def)

theorem handleStatusChange_completedAt_witness:
  "(0::nat) < length [sample_mtask\<lparr>m_status := Todo, m_completedAt := None\<rparr>]
   \<and> m_completedAt (handleStatusChange [sample_mtask\<lparr>m_status := Todo, m_completedAt := None\<rparr>]
         (sample_clock 1770285600000) (m_ident sample_mtask) Done ! 0)
       = Some ''2026-02-05T10:00:00.000Z''
   \<and> (0::nat) < length [sample_mtask]
   \<and> m_completedAt (handleStatusChange [sample_mtask]
         (sample_clock 1770285600000) (m_ident sample_mtask) In_progress ! 0) = None"
  using handleStatusChange_completedAt [of 0 "[sample_mtask\<lparr>m_status := Todo, m_completedAt := None\<rparr>]"
      "m_ident sample_mtask" "sample_clock 1770285600000" Done]
    handleStatusChange_completedAt [of 0 "[sample_mtask]"
      "m_ident sample_mtask" "sample_clock 1770285600000" In_progress]
  by (simp add: truthy_def sample_clock_def)

text \<open>
  A save to the remote store, whatever becomes of it, leaves the page's tasks, projects
  and trash and the device store as they were: time passing, with the timeouts it runs,
  changes none of them.
\<close>

theorem advance_keeps_data:
  "tasks (advance s ms) = tasks s \<and> projects (advance s ms) = projects s
   \<and> deletedTasks (advance s ms) = deletedTasks s \<and> window (advance s ms) = window s"
  by (simp add: advance_frame)

text \<open>
  Loading with an authoritative answer. Tasks and projects are each the remote
  collection when it is not empty and what the device store gave otherwise; the trash
  is what \<^verbatim>\<open>loadFromApi\<close> returned. When \<^verbatim>\<open>load\<close> returns normally the status is
  \<open>Saved\<close> and the three slots of the device store, if there is one, hold the loaded
  collections.
\<close>

theorem load_tasks_projects:
  "loadFromApi (fetch_GET (remote s)) = Some apiData \<longrightarrow>
     tasks (snd (load s)) =
       (if a_tasks apiData \<noteq> [] then a_tasks apiData
        else loadLocal (window s) pm_tasks DEFAULT_TASKS)
     \<and> projects (snd (load s)) =
       (if a_projects apiData \<noteq> [] then a_projects apiData
        else loadLocal (window s) pm_projects DEFAULT_PROJECTS)
     \<and> deletedTasks (snd (load s)) = a_deletedTasks apiData
     \<and> (fst (load s) = None \<longrightarrow>
          syncStatus (snd (load s)) = Saved
          \<and> map_option pm_projects (window (snd (load s)))
              = map_option (\<lambda>d. Some (projects (snd (load s)))) (window s)
          \<and> map_option pm_tasks (window (snd (load s)))
              = map_option (\<lambda>d. Some (tasks (snd (load s)))) (window s)
          \<and> map_option pm_deleted_tasks (window (snd (load s)))
              = map_option (\<lambda>d. Some (deletedTasks (snd (load s)))) (window s))"
  by (auto simp: load_def Let_def and_then_def saveLocal_in_def saveLocal_def setItem_def
      or_else_def split: option.splits prod.splits if_splits)

theorem load_tasks_projects_witness:
  "map_option a_tasks (loadFromApi (fetch_GET (remote (ProjectManager (Some cached_device)
        (snd (fetch_POST sample_remote (sample_body\<lparr>b_projects := Some []\<rparr>)))))))
      = Some [sample_task 2]
   \<and> fst (load (ProjectManager (Some cached_device)
        (snd (fetch_POST sample_remote (sample_body\<lparr>b_projects := Some []\<rparr>))))) = None
   \<and> tasks (snd (load (ProjectManager (Some cached_device)
        (snd (fetch_POST sample_remote (sample_body\<lparr>b_projects := Some []\<rparr>))))))
      = [sample_task 2]
   \<and> projects (snd (load (ProjectManager (Some cached_device)
        (snd (fetch_POST sample_remote (sample_body\<lparr>b_projects := Some []\<rparr>))))))
      = []
   \<and> map_option pm_tasks (window (snd (load (ProjectManager (Some cached_device)
        (snd (fetch_POST sample_remote (sample_body\<lparr>b_projects := Some []\<rparr>)))))))
      = Some (Some [sample_task 2])"
proof -
  let ?s = "ProjectManager (Some cached_device)
        (snd (fetch_POST sample_remote (sample_body\<lparr>b_projects := Some []\<rparr>)))"
  have a: "loadFromApi (fetch_GET (remote ?s))
      = Some \<lparr>a_tasks = [sample_task 2], a_projects = [], a_deletedTasks = []\<rparr>"
    by (simp add: loadFromApi_def fetch_GET_def fetch_POST_def POST_def GET_def
        sample_remote_def sample_server_def sample_body_def ProjectManager_def or_else_def Let_def)
  have w: "window ?s = Some cached_device"
    by (simp add: ProjectManager_def)
  have r: "fst (load ?s) = None"
    by (simp add: load_def loadLocal_def loadFromApi_def fetch_GET_def fetch_POST_def POST_def
        GET_def sample_remote_def sample_server_def sample_body_def cached_device_def
        ProjectManager_def or_else_def Let_def and_then_def saveLocal_in_def saveLocal_def
        setItem_def)
  have l: "loadLocal (window ?s) pm_projects DEFAULT_PROJECTS = []"
    by (simp add: ProjectManager_def loadLocal_def cached_device_def)
  from load_tasks_projects [of ?s "\<lparr>a_tasks = [sample_task 2], a_projects = [], a_deletedTasks = []\<rparr>"]
    a w r l
  show ?thesis by auto
qed

text \<open>
  On a configured store that answers normally, a \<^verbatim>\<open>POST\<close> succeeds and the
  \<^verbatim>\<open>GET\<close> after it returns the tasks and the projects of the body (an empty list for
  one the body lacks), the time of the write and the source \<^verbatim>\<open>supabase\<close>.
\<close>

theorem POST_GET_tasks_projects:
  "supabase srv \<and> db srv = DbOk \<longrightarrow>
     r_success (fst (POST srv (Some body)))
     \<and> g_tasks (GET (snd (POST srv (Some body)))) = or_else (b_tasks body) []
     \<and> g_projects (GET (snd (POST srv (Some body)))) = or_else (b_projects body) []
     \<and> g_lastUpdated (GET (snd (POST srv (Some body)))) = Some (server_time srv)
     \<and> g_source (GET (snd (POST srv (Some body)))) = Src_supabase"
  by (simp add: POST_def GET_def Let_def or_else_def)

theorem POST_GET_tasks_projects_witness:
  "supabase sample_server \<and> db sample_server = DbOk
   \<and> g_tasks (GET (snd (POST sample_server (Some sample_body)))) = [sample_task 2]
   \<and> g_projects (GET (snd (POST sample_server (Some sample_body)))) = [sample_project]"
  using POST_GET_tasks_projects [of sample_server sample_body]
  by (simp add: sample_server_def sample_body_def or_else_def)

text \<open>
  The device store. Without a window \<^verbatim>\<open>saveLocal\<close> does nothing and
  \<^verbatim>\<open>loadLocal\<close> gives the defaults. A write that the store takes returns normally
  with the slot holding the value, and \<^verbatim>\<open>loadLocal\<close> of a slot that holds a value
  gives that value back.
\<close>

theorem local_cache_round_trip:
  "saveLocal None key data = (None, None)
   \<and> loadLocal None slot defaults = defaults
   \<and> (\<not> quota_exceeded d (writes d) \<longrightarrow>
        saveLocal (Some d) pm_tasks_update t
          = (None, Some (d\<lparr>writes := writes d + 1, pm_tasks := Some t\<rparr>))
        \<and> saveLocal (Some d) pm_projects_update p
          = (None, Some (d\<lparr>writes := writes d + 1, pm_projects := Some p\<rparr>))
        \<and> saveLocal (Some d) pm_deleted_tasks_update dl
          = (None, Some (d\<lparr>writes := writes d + 1, pm_deleted_tasks := Some dl\<rparr>)))
   \<and> loadLocal (Some (d\<lparr>pm_tasks := Some t\<rparr>)) pm_tasks DEFAULT_TASKS = t
   \<and> loadLocal (Some (d\<lparr>pm_projects := Some p\<rparr>)) pm_projects DEFAULT_PROJECTS = p
   \<and> loadLocal (Some (d\<lparr>pm_deleted_tasks := Some dl\<rparr>)) pm_deleted_tasks [] = dl"
  by (simp add: saveLocal_def setItem_def loadLocal_def Let_def)

theorem local_cache_round_trip_witness:
  "\<not> quota_exceeded sample_device (writes sample_device)
   \<and> fst (saveLocal (Some sample_device) pm_tasks_update [sample_task 1]) = None
   \<and> loadLocal (snd (saveLocal (Some sample_device) pm_tasks_update [sample_task 1]))
        pm_tasks DEFAULT_TASKS = [sample_task 1]"
  using local_cache_round_trip [of pm_tasks_update "[sample_task 1]" pm_tasks DEFAULT_TASKS
      sample_device "[sample_task 1]" "[]" "[]"]
  by (simp add: sample_device_def loadLocal_def)


end
